theory Spec2Isabelle
  imports Main "HOL-Library.Word"
begin

section \<open>The RevenueLoan contract (contracts/RevenueLoan.sol)\<close>

text \<open>
  A shallow embedding of the Solidity contract \<open>RevenueLoan\<close>. Every external function
  is a HOL function from the transaction environment, the call arguments and the
  contract storage to either a revert reason (\<open>Inl\<close>) or the new storage together with
  the ordered list of effects of the call (\<open>Inr\<close>): storage writes, emitted events and
  external value transfers, in the order in which the source performs them. A revert
  discards the storage writes and the events of the call, as the EVM does.

  \<open>uint256\<close> is a 256-bit word. Solidity 0.8 arithmetic is checked: an addition or a
  multiplication whose mathematical result does not fit in 256 bits reverts with
  \<open>Panic(0x11)\<close>.
\<close>

type_synonym uint256 = "256 word"
type_synonym address = "160 word"

subsection \<open>Custom errors, struct, storage, events\<close>

datatype error =
    NotBorrower
  | NotLender
  | LoanDoesNotExist
  | LoanAlreadyFunded
  | LoanAlreadyActive
  | LoanNotFunded
  | LoanNotActive
  | InvalidPrincipal
  | InvalidRevenueShare
  | InvalidRepaymentCap
  | InvalidDuration
  | IncorrectFundingAmount
  | RepaymentMustBePositive
  | CollateralTooHigh
  | BorrowerCannotFundOwnLoan
  | LoanNotMatured
  | LoanFullyRepaid
  | NoCollateral
  | TransferFailed
  | EnforcedPause
  | ExpectedPause
  | OwnableUnauthorizedAccount address
  | PanicOverflow

record Loan =
  borrower :: address
  lender :: address
  principal :: uint256
  revenueSharePercent :: uint256
  repaymentCapPercent :: uint256
  totalRepaid :: uint256
  funded :: bool
  active :: bool
  collateralAmount :: uint256
  startTime :: uint256
  duration :: uint256

text \<open>
  The storage: the mapping \<open>loans\<close> (a Solidity mapping is total, absent keys read as
  the zero struct) and the counter \<open>nextLoanId\<close>, and the two storage variables that
  the inherited contracts Pausable and Ownable contribute, \<open>paused\<close> and \<open>owner\<close>.
\<close>

record ledger =
  loans :: "uint256 \<Rightarrow> Loan"
  nextLoanId :: uint256
  paused :: bool
  owner :: address

datatype event =
    LoanCreated uint256 address uint256 uint256 uint256 uint256 uint256
  | LoanFunded uint256 address
  | LoanRepaid uint256 uint256
  | LoanClosed uint256
  | CollateralClaimed uint256 address
  | LoanDefaulted uint256
  | Paused address
  | Unpaused address

text \<open>
  The transaction environment: \<open>msg.sender\<close>, \<open>msg.value\<close>, \<open>block.timestamp\<close>, and
  the behaviour of the outside world on a low-level call \<open>a.call{value: v}("")\<close>:
  \<open>accepts a v\<close> is the \<open>success\<close> flag that the call returns. The functions
  \<open>claimCollateral\<close>, \<open>pause\<close>, \<open>unpause\<close> and \<open>getLoan\<close> are not payable: a call
  to them that carries value never reaches the function, so the model of these
  functions does not read \<open>msg_value\<close>.

  Every function is modelled as a top-level transaction, and an external callee is
  represented by the outcome of the call alone: what a callee does to the ledger by
  calling back into it during the transfer is outside the model.
\<close>

record env =
  msg_sender :: address
  msg_value :: uint256
  block_timestamp :: uint256
  accepts :: "address \<Rightarrow> uint256 \<Rightarrow> bool"

subsection \<open>Effects of a call, in program order\<close>

datatype effect =
    SetNextLoanId uint256
  | SetLoan uint256 Loan
  | SetLender uint256 address
  | SetFunded uint256 bool
  | SetActive uint256 bool
  | SetStartTime uint256 uint256
  | SetTotalRepaid uint256 uint256
  | SetCollateralAmount uint256 uint256
  | SetPaused bool
  | Emit event
  | Call address uint256

fun apply_effect :: "effect \<Rightarrow> ledger \<Rightarrow> ledger" where
  "apply_effect (SetNextLoanId n) s = s\<lparr>nextLoanId := n\<rparr>"
| "apply_effect (SetLoan i l) s = s\<lparr>loans := (loans s)(i := l)\<rparr>"
| "apply_effect (SetLender i a) s = s\<lparr>loans := (loans s)(i := (loans s i)\<lparr>lender := a\<rparr>)\<rparr>"
| "apply_effect (SetFunded i b) s = s\<lparr>loans := (loans s)(i := (loans s i)\<lparr>funded := b\<rparr>)\<rparr>"
| "apply_effect (SetActive i b) s = s\<lparr>loans := (loans s)(i := (loans s i)\<lparr>active := b\<rparr>)\<rparr>"
| "apply_effect (SetStartTime i t) s =
     s\<lparr>loans := (loans s)(i := (loans s i)\<lparr>startTime := t\<rparr>)\<rparr>"
| "apply_effect (SetTotalRepaid i v) s =
     s\<lparr>loans := (loans s)(i := (loans s i)\<lparr>totalRepaid := v\<rparr>)\<rparr>"
| "apply_effect (SetCollateralAmount i v) s =
     s\<lparr>loans := (loans s)(i := (loans s i)\<lparr>collateralAmount := v\<rparr>)\<rparr>"
| "apply_effect (SetPaused b) s = s\<lparr>paused := b\<rparr>"
| "apply_effect (Emit ev) s = s"
| "apply_effect (Call a v) s = s"

text \<open>
  A running call: the storage so far and the effects so far. \<open>exec\<close> performs one more
  statement.
\<close>

type_synonym machine = "ledger \<times> effect list"
type_synonym outcome = "error + machine"

definition exec :: "effect \<Rightarrow> machine \<Rightarrow> machine" where
  "exec x m = (apply_effect x (fst m), snd m @ [x])"

subsection \<open>Checked arithmetic\<close>

definition checked_add :: "uint256 \<Rightarrow> uint256 \<Rightarrow> error + uint256" where
  "checked_add a b = (if unat a + unat b < 2 ^ 256 then Inr (a + b) else Inl PanicOverflow)"

definition checked_mul :: "uint256 \<Rightarrow> uint256 \<Rightarrow> error + uint256" where
  "checked_mul a b = (if unat a * unat b < 2 ^ 256 then Inr (a * b) else Inl PanicOverflow)"

subsection \<open>Modifiers\<close>

definition onlyBorrower :: "uint256 \<Rightarrow> env \<Rightarrow> ledger \<Rightarrow> outcome \<Rightarrow> outcome" where
  "onlyBorrower loanId e s body =
     (if borrower (loans s loanId) \<noteq> msg_sender e then Inl NotBorrower else body)"

definition onlyLender :: "uint256 \<Rightarrow> env \<Rightarrow> ledger \<Rightarrow> outcome \<Rightarrow> outcome" where
  "onlyLender loanId e s body =
     (if lender (loans s loanId) \<noteq> msg_sender e then Inl NotLender else body)"

definition loanExists :: "uint256 \<Rightarrow> ledger \<Rightarrow> (error + 'a) \<Rightarrow> error + 'a" where
  "loanExists loanId s body =
     (if loanId = 0 \<or> nextLoanId s \<le> loanId then Inl LoanDoesNotExist else body)"

definition loanActive :: "uint256 \<Rightarrow> ledger \<Rightarrow> outcome \<Rightarrow> outcome" where
  "loanActive loanId s body = (if \<not> active (loans s loanId) then Inl LoanNotActive else body)"

definition loanFunded :: "uint256 \<Rightarrow> ledger \<Rightarrow> outcome \<Rightarrow> outcome" where
  "loanFunded loanId s body = (if \<not> funded (loans s loanId) then Inl LoanNotFunded else body)"

text \<open>
  Modelled from the spec: the modifiers \<open>whenNotPaused\<close> and \<open>whenPaused\<close> of the
  imported contract Pausable and the modifier \<open>onlyOwner\<close> of the imported contract
  Ownable, whose sources are not part of the repository. The spec says that all
  operations can be globally disabled by an administrative pause switch, that only the
  ledger's designated administrator may toggle it, and that while paused the mutating
  operations all fail immediately and uniformly. The error names are those of the
  library.
\<close>

definition whenNotPaused :: "ledger \<Rightarrow> outcome \<Rightarrow> outcome" where
  "whenNotPaused s body = (if paused s then Inl EnforcedPause else body)"

definition whenPaused :: "ledger \<Rightarrow> outcome \<Rightarrow> outcome" where
  "whenPaused s body = (if \<not> paused s then Inl ExpectedPause else body)"

definition onlyOwner :: "env \<Rightarrow> ledger \<Rightarrow> outcome \<Rightarrow> outcome" where
  "onlyOwner e s body =
     (if owner s \<noteq> msg_sender e then Inl (OwnableUnauthorizedAccount (msg_sender e)) else body)"

text \<open>
  Modelled from the spec: the modifier \<open>nonReentrant\<close> of the imported contract
  ReentrancyGuard, whose source is not part of the repository. The spec says that the
  guard makes a nested call, invoked by a side effect of a running operation, fail
  immediately. Its flag is clear at the start of every top-level transaction and clear
  again at its end, so for the top-level transactions modelled here the modifier lets the
  body run and leaves no trace in the storage.
\<close>

definition nonReentrant :: "outcome \<Rightarrow> outcome" where
  "nonReentrant body = body"

subsection \<open>Admin functions\<close>

text \<open>
  Modelled from the spec: the internal functions \<open>_pause\<close> and \<open>_unpause\<close> of the
  imported contract Pausable, which the functions \<open>pause\<close> and \<open>unpause\<close> of
  the contract call: they switch the pause flag on and off.
\<close>

definition pause_internal :: "env \<Rightarrow> ledger \<Rightarrow> outcome" where
  "pause_internal e s =
     whenNotPaused s (Inr (exec (Emit (Paused (msg_sender e))) (exec (SetPaused True) (s, []))))"

definition unpause_internal :: "env \<Rightarrow> ledger \<Rightarrow> outcome" where
  "unpause_internal e s =
     whenPaused s (Inr (exec (Emit (Unpaused (msg_sender e))) (exec (SetPaused False) (s, []))))"

definition pause :: "env \<Rightarrow> ledger \<Rightarrow> outcome" where
  "pause e s = onlyOwner e s (pause_internal e s)"

definition unpause :: "env \<Rightarrow> ledger \<Rightarrow> outcome" where
  "unpause e s = onlyOwner e s (unpause_internal e s)"

subsection \<open>Core functions\<close>

definition createLoan :: "env \<Rightarrow> uint256 \<Rightarrow> uint256 \<Rightarrow> uint256 \<Rightarrow> uint256 \<Rightarrow> ledger \<Rightarrow> outcome" where
  "createLoan e amount revShare repCap dur s =
     whenNotPaused s
      (if amount = 0 then Inl InvalidPrincipal
       else if revShare = 0 then Inl InvalidRevenueShare
       else if repCap < 100 then Inl InvalidRepaymentCap
       else if dur = 0 then Inl InvalidDuration
       else if msg_value e > amount then Inl CollateralTooHigh
       else
         (case checked_add (nextLoanId s) 1 of
            Inl err \<Rightarrow> Inl err
          | Inr next \<Rightarrow>
              let loanId = nextLoanId s;
                  m1 = exec (SetNextLoanId next) (s, []);
                  m2 = exec (SetLoan loanId
                         \<lparr>borrower = msg_sender e,
                          lender = 0,
                          principal = amount,
                          revenueSharePercent = revShare,
                          repaymentCapPercent = repCap,
                          totalRepaid = 0,
                          funded = False,
                          active = False,
                          collateralAmount = msg_value e,
                          startTime = 0,
                          duration = dur\<rparr>) m1;
                  m3 = exec (Emit (LoanCreated loanId (msg_sender e) amount revShare repCap dur
                         (msg_value e))) m2
              in Inr m3))"

definition fundLoan :: "env \<Rightarrow> uint256 \<Rightarrow> ledger \<Rightarrow> outcome" where
  "fundLoan e loanId s =
     nonReentrant (whenNotPaused s (loanExists loanId s
      (let loan = loans s loanId in
       if funded loan then Inl LoanAlreadyFunded
       else if active loan then Inl LoanAlreadyActive
       else if msg_sender e = borrower loan then Inl BorrowerCannotFundOwnLoan
       else if msg_value e \<noteq> principal loan then Inl IncorrectFundingAmount
       else
         let borrower' = borrower loan;
             m1 = exec (SetLender loanId (msg_sender e)) (s, []);
             m2 = exec (SetFunded loanId True) m1;
             m3 = exec (SetActive loanId True) m2;
             m4 = exec (SetStartTime loanId (block_timestamp e)) m3;
             m5 = exec (Emit (LoanFunded loanId (msg_sender e))) m4;
             m6 = exec (Call borrower' (msg_value e)) m5
         in if \<not> accepts e borrower' (msg_value e) then Inl TransferFailed else Inr m6)))"

definition repay :: "env \<Rightarrow> uint256 \<Rightarrow> ledger \<Rightarrow> outcome" where
  "repay e loanId s =
     nonReentrant (whenNotPaused s (loanExists loanId s (onlyBorrower loanId e s
      (loanFunded loanId s (loanActive loanId s
      (if msg_value e = 0 then Inl RepaymentMustBePositive
       else
         let loan = loans s loanId;
             principal' = principal loan;
             repaymentCapPercent' = repaymentCapPercent loan;
             lender' = lender loan;
             borrower' = borrower loan
         in
         (case checked_mul principal' repaymentCapPercent' of
            Inl err \<Rightarrow> Inl err
          | Inr product \<Rightarrow>
              let requiredRepayment = product div 100 in
              (case checked_add (totalRepaid loan) (msg_value e) of
                 Inl err \<Rightarrow> Inl err
               | Inr newTotalRepaid \<Rightarrow>
                   let m1 = exec (SetTotalRepaid loanId newTotalRepaid) (s, []);
                       m2 = exec (Emit (LoanRepaid loanId (msg_value e))) m1;
                       m3 = exec (Call lender' (msg_value e)) m2
                   in
                   if \<not> accepts e lender' (msg_value e) then Inl TransferFailed
                   else if newTotalRepaid \<ge> requiredRepayment then
                     let m4 = exec (SetActive loanId False) m3;
                         collateral = collateralAmount (loans (fst m4) loanId)
                     in
                     if collateral > 0 then
                       let m5 = exec (SetCollateralAmount loanId 0) m4;
                           m6 = exec (Call borrower' collateral) m5
                       in
                       if \<not> accepts e borrower' collateral then Inl TransferFailed
                       else Inr (exec (Emit (LoanClosed loanId)) m6)
                     else Inr (exec (Emit (LoanClosed loanId)) m4)
                   else Inr m3))))))))"

definition claimCollateral :: "env \<Rightarrow> uint256 \<Rightarrow> ledger \<Rightarrow> outcome" where
  "claimCollateral e loanId s =
     nonReentrant (whenNotPaused s (loanExists loanId s (onlyLender loanId e s
      (loanFunded loanId s (loanActive loanId s
      (let loan = loans s loanId;
           startTime' = startTime loan;
           duration' = duration loan;
           principal' = principal loan;
           repaymentCapPercent' = repaymentCapPercent loan;
           totalRepaid' = totalRepaid loan;
           lender' = lender loan
       in
       (case checked_add startTime' duration' of
          Inl err \<Rightarrow> Inl err
        | Inr maturity \<Rightarrow>
            if block_timestamp e \<le> maturity then Inl LoanNotMatured
            else
              (case checked_mul principal' repaymentCapPercent' of
                 Inl err \<Rightarrow> Inl err
               | Inr product \<Rightarrow>
                   let requiredRepayment = product div 100 in
                   if totalRepaid' \<ge> requiredRepayment then Inl LoanFullyRepaid
                   else
                     let collateral = collateralAmount loan in
                     if collateral = 0 then Inl NoCollateral
                     else
                       let m1 = exec (SetActive loanId False) (s, []);
                           m2 = exec (SetCollateralAmount loanId 0) m1;
                           m3 = exec (Emit (LoanDefaulted loanId)) m2;
                           m4 = exec (Emit (CollateralClaimed loanId (msg_sender e))) m3;
                           m5 = exec (Emit (LoanClosed loanId)) m4;
                           m6 = exec (Call lender' collateral) m5
                       in
                       if \<not> accepts e lender' collateral then Inl TransferFailed
                       else Inr m6))))))))"

subsection \<open>View functions\<close>

definition getLoan :: "uint256 \<Rightarrow> ledger \<Rightarrow> error + Loan" where
  "getLoan loanId s = loanExists loanId s (Inr (loans s loanId))"

subsection \<open>Deployment and sequences of transactions\<close>

text \<open>
  The storage after deployment: the mapping is empty (every key reads as the zero struct),
  \<open>nextLoanId\<close> is 1, the contract is not paused and the deployer is the owner.
\<close>

definition zeroLoan :: Loan where
  "zeroLoan =
     \<lparr>borrower = 0, lender = 0, principal = 0, revenueSharePercent = 0,
      repaymentCapPercent = 0, totalRepaid = 0, funded = False, active = False,
      collateralAmount = 0, startTime = 0, duration = 0\<rparr>"

definition constructor :: "env \<Rightarrow> ledger" where
  "constructor e =
     \<lparr>loans = (\<lambda>_. zeroLoan), nextLoanId = 1, paused = False, owner = msg_sender e\<rparr>"

text \<open>
  A transaction is a call of one external function in an environment. A transaction
  that reverts leaves the storage as it was; one that returns commits its storage.
\<close>

datatype tx =
    CreateLoan env uint256 uint256 uint256 uint256
  | FundLoan env uint256
  | Repay env uint256
  | ClaimCollateral env uint256
  | Pause env
  | Unpause env

fun perform :: "tx \<Rightarrow> ledger \<Rightarrow> outcome" where
  "perform (CreateLoan e amount revShare repCap dur) s = createLoan e amount revShare repCap dur s"
| "perform (FundLoan e loanId) s = fundLoan e loanId s"
| "perform (Repay e loanId) s = repay e loanId s"
| "perform (ClaimCollateral e loanId) s = claimCollateral e loanId s"
| "perform (Pause e) s = pause e s"
| "perform (Unpause e) s = unpause e s"

definition commit :: "outcome \<Rightarrow> ledger \<Rightarrow> ledger" where
  "commit r s = (case r of Inl err \<Rightarrow> s | Inr m \<Rightarrow> fst m)"

fun run :: "tx list \<Rightarrow> ledger \<Rightarrow> ledger" where
  "run [] s = s"
| "run (t # ts) s = run ts (commit (perform t s) s)"

subsection \<open>Observations on a call\<close>

text \<open>
  The required repayment of a loan as the mathematical quantity
  \<open>\<lfloor>principal * repaymentCapPercent / 100\<rfloor>\<close> on natural numbers, and the events and
  the external transfers of a list of effects, in order.
\<close>

definition requiredRepayment :: "Loan \<Rightarrow> nat" where
  "requiredRepayment l = (unat (principal l) * unat (repaymentCapPercent l)) div 100"

fun events_of :: "effect list \<Rightarrow> event list" where
  "events_of [] = []"
| "events_of (Emit ev # fx) = ev # events_of fx"
| "events_of (x # fx) = events_of fx"

fun transfers :: "effect list \<Rightarrow> (address \<times> uint256) list" where
  "transfers [] = []"
| "transfers (Call a v # fx) = (a, v) # transfers fx"
| "transfers (x # fx) = transfers fx"

subsection \<open>A concrete ledger\<close>

text \<open>
  The scenario of the test suite: the borrower asks for a principal of 10 with a
  repayment cap of 120 percent and a duration of seven days, and posts a collateral of 2;
  the lender funds the loan at time 1000. Every external call is accepted.
\<close>

definition admin :: address where "admin = 1"
definition borrowerA :: address where "borrowerA = 11"
definition lenderX :: address where "lenderX = 22"

definition always :: "address \<Rightarrow> uint256 \<Rightarrow> bool" where
  "always a v = True"

definition call_env :: "address \<Rightarrow> uint256 \<Rightarrow> uint256 \<Rightarrow> env" where
  "call_env who v t = \<lparr>msg_sender = who, msg_value = v, block_timestamp = t, accepts = always\<rparr>"

definition deployed :: ledger where
  "deployed = constructor (call_env admin 0 0)"

definition loan_created :: ledger where
  "loan_created = run [CreateLoan (call_env borrowerA 2 100) 10 10 120 604800] deployed"

definition loan_funded :: ledger where
  "loan_funded = run [FundLoan (call_env lenderX 10 1000) 1] loan_created"

definition loan_paused :: ledger where
  "loan_paused = run [Pause (call_env admin 0 2000)] loan_funded"

text \<open>
  More ledgers: one whose loan counter has reached the largest \<open>uint256\<close>, one whose
  loan was created with the largest duration, one whose loan was created with a repayment
  cap of \<open>2^255\<close> percent, and the loan of the scenario after a repayment of 1 and after a
  repayment of 12. \<open>only_to a\<close> is an outside world where only the address \<open>a\<close>
  accepts a transfer.
\<close>

definition uint256_max :: uint256 where
  "uint256_max = 115792089237316195423570985008687907853269984665640564039457584007913129639935"

definition counter_exhausted :: ledger where
  "counter_exhausted = deployed\<lparr>nextLoanId := uint256_max\<rparr>"

definition loan_unbounded :: ledger where
  "loan_unbounded =
     run [CreateLoan (call_env borrowerA 2 100) 10 10 120 uint256_max,
          FundLoan (call_env lenderX 10 1000) 1] deployed"

definition only_to :: "address \<Rightarrow> address \<Rightarrow> uint256 \<Rightarrow> bool" where
  "only_to a b v = (b = a)"

definition loan_bigcap :: ledger where
  "loan_bigcap =
     run [CreateLoan (call_env borrowerA 2 100) 10 10
            57896044618658097711785492504343953926634992332820282019728792003956564819968 604800,
          FundLoan (call_env lenderX 10 1000) 1] deployed"

definition loan_part_repaid :: ledger where
  "loan_part_repaid = run [Repay (call_env borrowerA 1 5000) 1] loan_funded"

definition loan_repaid :: ledger where
  "loan_repaid = run [Repay (call_env borrowerA 12 5000) 1] loan_funded"

section \<open>Properties\<close>

subsection \<open>Checked arithmetic on natural numbers\<close>

lemmas mods = nonReentrant_def whenNotPaused_def whenPaused_def onlyOwner_def loanExists_def
  onlyBorrower_def onlyLender_def loanFunded_def loanActive_def

lemma unat_checked_sum:
  fixes a b :: uint256
  assumes "unat a + unat b < 2 ^ 256"
  shows "unat (a + b) = unat a + unat b"
  using assms by (simp add: unat_add_lem [THEN iffD1])

lemma unat_checked_product:
  fixes a b :: uint256
  assumes "unat a * unat b < 2 ^ 256"
  shows "unat (a * b) = unat a * unat b"
  using assms by (simp add: unat_mult_lem [THEN iffD1])

lemma unat_required:
  fixes p c :: uint256
  assumes "unat p * unat c < 2 ^ 256"
  shows "unat ((p * c) div 100) = (unat p * unat c) div 100"
  using assms by (simp add: unat_div unat_checked_product)

lemma cap_reached_iff:
  fixes p c tot v :: uint256
  assumes "unat p * unat c < 2 ^ 256" "unat tot + unat v < 2 ^ 256"
  shows "(p * c) div 100 \<le> tot + v \<longleftrightarrow> (unat p * unat c) div 100 \<le> unat tot + unat v"
  using assms by (simp add: word_le_nat_alt unat_required unat_checked_sum)

subsection \<open>When a call returns, and with what\<close>

text \<open>
  For each external function: the call returns exactly when all its checks pass, and then
  the new storage and the list of effects are the ones given.
\<close>

lemma repay_Inr:
  "repay e i s = Inr m \<longleftrightarrow>
     \<not> paused s \<and> i \<noteq> 0 \<and> i < nextLoanId s \<and> borrower (loans s i) = msg_sender e \<and>
     funded (loans s i) \<and> active (loans s i) \<and> msg_value e \<noteq> 0 \<and>
     unat (principal (loans s i)) * unat (repaymentCapPercent (loans s i)) < 2 ^ 256 \<and>
     unat (totalRepaid (loans s i)) + unat (msg_value e) < 2 ^ 256 \<and>
     accepts e (lender (loans s i)) (msg_value e) \<and>
     (if requiredRepayment (loans s i) \<le> unat (totalRepaid (loans s i)) + unat (msg_value e)
      then
        if collateralAmount (loans s i) \<noteq> 0
        then accepts e (borrower (loans s i)) (collateralAmount (loans s i)) \<and>
          m = (s\<lparr>loans := (loans s)(i := (loans s i)
                 \<lparr>totalRepaid := totalRepaid (loans s i) + msg_value e, active := False,
                  collateralAmount := 0\<rparr>)\<rparr>,
               [SetTotalRepaid i (totalRepaid (loans s i) + msg_value e),
                Emit (LoanRepaid i (msg_value e)),
                Call (lender (loans s i)) (msg_value e),
                SetActive i False,
                SetCollateralAmount i 0,
                Call (borrower (loans s i)) (collateralAmount (loans s i)),
                Emit (LoanClosed i)])
        else
          m = (s\<lparr>loans := (loans s)(i := (loans s i)
                 \<lparr>totalRepaid := totalRepaid (loans s i) + msg_value e, active := False\<rparr>)\<rparr>,
               [SetTotalRepaid i (totalRepaid (loans s i) + msg_value e),
                Emit (LoanRepaid i (msg_value e)),
                Call (lender (loans s i)) (msg_value e),
                SetActive i False,
                Emit (LoanClosed i)])
      else
        m = (s\<lparr>loans := (loans s)(i := (loans s i)
               \<lparr>totalRepaid := totalRepaid (loans s i) + msg_value e\<rparr>)\<rparr>,
             [SetTotalRepaid i (totalRepaid (loans s i) + msg_value e),
              Emit (LoanRepaid i (msg_value e)),
              Call (lender (loans s i)) (msg_value e)]))"
proof (cases "unat (principal (loans s i)) * unat (repaymentCapPercent (loans s i)) < 2 ^ 256
    \<and> unat (totalRepaid (loans s i)) + unat (msg_value e) < 2 ^ 256")
  case True
  then have cap: "(principal (loans s i) * repaymentCapPercent (loans s i)) div 100
        \<le> totalRepaid (loans s i) + msg_value e
      \<longleftrightarrow> requiredRepayment (loans s i) \<le> unat (totalRepaid (loans s i)) + unat (msg_value e)"
    by (simp add: cap_reached_iff requiredRepayment_def)
  show ?thesis
    using True
    by (auto simp: repay_def mods checked_add_def checked_mul_def exec_def Let_def cap
        word_gt_0 not_le)
next
  case False
  then show ?thesis
    by (auto simp: repay_def mods checked_add_def checked_mul_def Let_def)
qed


lemma claimCollateral_Inr:
  "claimCollateral e i s = Inr m \<longleftrightarrow>
     \<not> paused s \<and> i \<noteq> 0 \<and> i < nextLoanId s \<and> lender (loans s i) = msg_sender e \<and>
     funded (loans s i) \<and> active (loans s i) \<and>
     unat (startTime (loans s i)) + unat (duration (loans s i)) < 2 ^ 256 \<and>
     unat (startTime (loans s i)) + unat (duration (loans s i)) < unat (block_timestamp e) \<and>
     unat (principal (loans s i)) * unat (repaymentCapPercent (loans s i)) < 2 ^ 256 \<and>
     unat (totalRepaid (loans s i)) < requiredRepayment (loans s i) \<and>
     collateralAmount (loans s i) \<noteq> 0 \<and>
     accepts e (lender (loans s i)) (collateralAmount (loans s i)) \<and>
     m = (s\<lparr>loans := (loans s)(i := (loans s i)\<lparr>active := False, collateralAmount := 0\<rparr>)\<rparr>,
          [SetActive i False,
           SetCollateralAmount i 0,
           Emit (LoanDefaulted i),
           Emit (CollateralClaimed i (msg_sender e)),
           Emit (LoanClosed i),
           Call (lender (loans s i)) (collateralAmount (loans s i))])"
proof (cases "unat (startTime (loans s i)) + unat (duration (loans s i)) < 2 ^ 256
    \<and> unat (principal (loans s i)) * unat (repaymentCapPercent (loans s i)) < 2 ^ 256")
  case True
  then have mat: "block_timestamp e \<le> startTime (loans s i) + duration (loans s i)
      \<longleftrightarrow> unat (block_timestamp e) \<le> unat (startTime (loans s i)) + unat (duration (loans s i))"
    by (simp add: word_le_nat_alt unat_checked_sum)
  from True have cap: "(principal (loans s i) * repaymentCapPercent (loans s i)) div 100
        \<le> totalRepaid (loans s i)
      \<longleftrightarrow> requiredRepayment (loans s i) \<le> unat (totalRepaid (loans s i))"
    by (simp add: word_le_nat_alt unat_required requiredRepayment_def)
  show ?thesis
    using True
    by (auto simp: claimCollateral_def mods checked_add_def checked_mul_def exec_def Let_def
        mat cap not_le)
next
  case False
  then show ?thesis
    by (auto simp: claimCollateral_def mods checked_add_def checked_mul_def Let_def)
qed

lemma fundLoan_Inr:
  "fundLoan e i s = Inr m \<longleftrightarrow>
     \<not> paused s \<and> i \<noteq> 0 \<and> i < nextLoanId s \<and>
     \<not> funded (loans s i) \<and> \<not> active (loans s i) \<and>
     msg_sender e \<noteq> borrower (loans s i) \<and> msg_value e = principal (loans s i) \<and>
     accepts e (borrower (loans s i)) (msg_value e) \<and>
     m = (s\<lparr>loans := (loans s)(i := (loans s i)
            \<lparr>lender := msg_sender e, funded := True, active := True,
             startTime := block_timestamp e\<rparr>)\<rparr>,
          [SetLender i (msg_sender e),
           SetFunded i True,
           SetActive i True,
           SetStartTime i (block_timestamp e),
           Emit (LoanFunded i (msg_sender e)),
           Call (borrower (loans s i)) (msg_value e)])"
  by (auto simp: fundLoan_def mods exec_def Let_def not_le)

lemma createLoan_Inr:
  "createLoan e a r c d s = Inr m \<longleftrightarrow>
     \<not> paused s \<and> a \<noteq> 0 \<and> r \<noteq> 0 \<and> 100 \<le> c \<and> d \<noteq> 0 \<and> msg_value e \<le> a \<and>
     unat (nextLoanId s) + 1 < 2 ^ 256 \<and>
     m = (s\<lparr>nextLoanId := nextLoanId s + 1,
            loans := (loans s)(nextLoanId s :=
              \<lparr>borrower = msg_sender e, lender = 0, principal = a, revenueSharePercent = r,
               repaymentCapPercent = c, totalRepaid = 0, funded = False, active = False,
               collateralAmount = msg_value e, startTime = 0, duration = d\<rparr>)\<rparr>,
          [SetNextLoanId (nextLoanId s + 1),
           SetLoan (nextLoanId s)
             \<lparr>borrower = msg_sender e, lender = 0, principal = a, revenueSharePercent = r,
              repaymentCapPercent = c, totalRepaid = 0, funded = False, active = False,
              collateralAmount = msg_value e, startTime = 0, duration = d\<rparr>,
           Emit (LoanCreated (nextLoanId s) (msg_sender e) a r c d (msg_value e))])"
  by (auto simp: createLoan_def mods checked_add_def exec_def Let_def not_le not_less)

lemma pause_Inr:
  "pause e s = Inr m \<longleftrightarrow>
     owner s = msg_sender e \<and> \<not> paused s \<and>
     m = (s\<lparr>paused := True\<rparr>, [SetPaused True, Emit (Paused (msg_sender e))])"
  by (auto simp: pause_def pause_internal_def mods exec_def)

lemma unpause_Inr:
  "unpause e s = Inr m \<longleftrightarrow>
     owner s = msg_sender e \<and> paused s \<and>
     m = (s\<lparr>paused := False\<rparr>, [SetPaused False, Emit (Unpaused (msg_sender e))])"
  by (auto simp: unpause_def unpause_internal_def mods exec_def)

lemmas returns = createLoan_Inr fundLoan_Inr repay_Inr claimCollateral_Inr pause_Inr unpause_Inr

lemma getLoan_eq:
  "getLoan i s = (if i = 0 \<or> nextLoanId s \<le> i then Inl LoanDoesNotExist else Inr (loans s i))"
  by (simp add: getLoan_def loanExists_def)

lemma repay_ignores_time: "repay (e\<lparr>block_timestamp := t\<rparr>) i s = repay e i s"
  by (simp add: repay_def mods Let_def cong: sum.case_cong if_cong)

subsection \<open>One transaction, seen from one loan\<close>

text \<open>
  What a transaction can do to the loan \<open>i\<close> of the ledger: the loan keeps existing, a
  funded loan stays funded, a funded loan that is not active stays so, a loan stops being
  active only as a funded loan, and its collateral changes only by being zeroed in
  \<open>repay\<close> or \<open>claimCollateral\<close> on this very loan, funded and active before.
\<close>

lemma commit_Inr: "perform t s = Inr m \<Longrightarrow> commit (perform t s) s = fst m"
  by (simp add: commit_def)

lemma counter_step:
  fixes n i :: uint256
  assumes "i < n" and "unat n + 1 < 2 ^ 256"
  shows "i < n + 1"
proof -
  from assms(2) have "unat (n + 1) = unat n + 1"
    using unat_checked_sum [of n 1] by simp
  with assms(1) show ?thesis
    by (simp add: word_less_nat_alt)
qed

lemma step_exists:
  assumes "i < nextLoanId s"
  shows "i < nextLoanId (commit (perform t s) s)"
proof (cases "perform t s")
  case (Inl err)
  with assms show ?thesis by (simp add: commit_def)
next
  case (Inr m)
  with assms show ?thesis
    unfolding commit_Inr [OF Inr]
    by (cases t) (auto simp: returns counter_step split: if_splits)
qed

lemma step_funded:
  assumes "i < nextLoanId s" and "funded (loans s i)"
  shows "funded (loans (commit (perform t s) s) i)"
proof (cases "perform t s")
  case (Inl err)
  with assms show ?thesis by (simp add: commit_def)
next
  case (Inr m)
  with assms show ?thesis
    unfolding commit_Inr [OF Inr]
    by (cases t) (auto simp: returns split: if_splits)
qed

lemma step_closed:
  assumes "i < nextLoanId s" and "funded (loans s i)" and "\<not> active (loans s i)"
  shows "\<not> active (loans (commit (perform t s) s) i)"
proof (cases "perform t s")
  case (Inl err)
  with assms show ?thesis by (simp add: commit_def)
next
  case (Inr m)
  with assms show ?thesis
    unfolding commit_Inr [OF Inr]
    by (cases t) (auto simp: returns split: if_splits)
qed

lemma step_deactivated:
  assumes "i < nextLoanId s" and "active (loans s i)"
    and "\<not> active (loans (commit (perform t s) s) i)"
  shows "funded (loans (commit (perform t s) s) i)"
proof (cases "perform t s")
  case (Inl err)
  with assms show ?thesis by (simp add: commit_def)
next
  case (Inr m)
  with assms show ?thesis
    unfolding commit_Inr [OF Inr]
    by (cases t) (auto simp: returns split: if_splits)
qed

lemma step_collateral:
  assumes "i < nextLoanId s"
    and "collateralAmount (loans (commit (perform t s) s) i) \<noteq> collateralAmount (loans s i)"
  shows "funded (loans s i) \<and> active (loans s i) \<and>
         \<not> active (loans (commit (perform t s) s) i) \<and>
         collateralAmount (loans (commit (perform t s) s) i) = 0 \<and>
         (\<exists>e. t = Repay e i \<or> t = ClaimCollateral e i)"
proof (cases "perform t s")
  case (Inl err)
  with assms show ?thesis by (simp add: commit_def)
next
  case (Inr m)
  with assms show ?thesis
    unfolding commit_Inr [OF Inr]
    by (cases t) (auto simp: returns split: if_splits)
qed

lemma commit_paused_cases:
  assumes "paused (commit (perform t s) s) \<noteq> paused s"
  shows "\<exists>e. (t = Pause e \<or> t = Unpause e) \<and> msg_sender e = owner s"
proof (cases "perform t s")
  case (Inl err)
  with assms show ?thesis by (simp add: commit_def)
next
  case (Inr m)
  with assms have "paused (fst m) \<noteq> paused s"
    by (simp add: commit_def)
  with Inr show ?thesis
    by (cases t)
      (auto simp: createLoan_Inr fundLoan_Inr repay_Inr claimCollateral_Inr
        pause_Inr unpause_Inr split: if_splits)
qed

subsection \<open>Sequences of transactions, seen from one loan\<close>

lemma run_exists: "i < nextLoanId s \<Longrightarrow> i < nextLoanId (run ts s)"
  by (induction ts arbitrary: s) (simp_all add: step_exists)

lemma run_funded:
  "i < nextLoanId s \<Longrightarrow> funded (loans s i) \<Longrightarrow> funded (loans (run ts s) i)"
  by (induction ts arbitrary: s) (simp_all add: step_exists step_funded)

lemma run_closed:
  "i < nextLoanId s \<Longrightarrow> funded (loans s i) \<Longrightarrow> \<not> active (loans s i)
    \<Longrightarrow> \<not> active (loans (run ts s) i)"
  by (induction ts arbitrary: s) (simp_all add: step_exists step_funded step_closed)

lemma run_deactivated:
  "i < nextLoanId s \<Longrightarrow> active (loans s i) \<Longrightarrow> \<not> active (loans (run ts s) i)
    \<Longrightarrow> funded (loans (run ts s) i)"
proof (induction ts arbitrary: s)
  case Nil
  then show ?case by simp
next
  case (Cons t ts)
  let ?s1 = "commit (perform t s) s"
  from Cons.prems have ex: "i < nextLoanId ?s1"
    by (simp add: step_exists)
  show ?case
  proof (cases "active (loans ?s1 i)")
    case True
    with Cons.IH [OF ex] Cons.prems show ?thesis by simp
  next
    case False
    with Cons.prems have "funded (loans ?s1 i)"
      by (simp add: step_deactivated)
    with ex show ?thesis by (simp add: run_funded)
  qed
qed

lemma run_unfunded_collateral:
  "i < nextLoanId s \<Longrightarrow> \<not> funded (loans (run ts s) i)
    \<Longrightarrow> collateralAmount (loans (run ts s) i) = collateralAmount (loans s i)"
proof (induction ts arbitrary: s)
  case Nil
  then show ?case by simp
next
  case (Cons t ts)
  let ?s1 = "commit (perform t s) s"
  from Cons.prems have ex: "i < nextLoanId ?s1"
    by (simp add: step_exists)
  from Cons.prems have later: "\<not> funded (loans (run ts ?s1) i)"
    by simp
  with ex have now1: "\<not> funded (loans ?s1 i)"
    using run_funded by blast
  with Cons.prems(1) have now: "\<not> funded (loans s i)"
    using step_funded by blast
  with Cons.prems(1) have "collateralAmount (loans ?s1 i) = collateralAmount (loans s i)"
    using step_collateral by blast
  with Cons.IH [OF ex later] show ?case by simp
qed

text \<open>
  On every ledger that transactions can reach from deployment, an active loan is funded:
  a loan that is active without being funded exists only as a value of the storage type.
\<close>

lemma step_active_funded:
  assumes "\<forall>i. active (loans s i) \<longrightarrow> funded (loans s i)"
  shows "active (loans (commit (perform t s) s) i) \<longrightarrow> funded (loans (commit (perform t s) s) i)"
proof (cases "perform t s")
  case (Inl err)
  with assms show ?thesis by (simp add: commit_def)
next
  case (Inr m)
  with assms show ?thesis
    unfolding commit_Inr [OF Inr]
    by (cases t) (auto simp: returns split: if_splits)
qed

lemma run_active_funded:
  "\<forall>i. active (loans s i) \<longrightarrow> funded (loans s i)
    \<Longrightarrow> active (loans (run ts s) i) \<longrightarrow> funded (loans (run ts s) i)"
proof (induction ts arbitrary: s i)
  case Nil
  then show ?case by simp
next
  case (Cons t ts)
  have "\<forall>i. active (loans (commit (perform t s) s) i) \<longrightarrow> funded (loans (commit (perform t s) s) i)"
    using step_active_funded [OF Cons.prems] by blast
  from Cons.IH [OF this] show ?case by simp
qed

lemma reachable_active_funded:
  "active (loans (run ts (constructor e)) i) \<Longrightarrow> funded (loans (run ts (constructor e)) i)"
  using run_active_funded [of "constructor e" ts i]
  by (simp add: constructor_def zeroLoan_def)

lemma perform_transfers:
  assumes "perform t s = Inr (s', fx)"
  shows "transfers fx =
    (case t of
       CreateLoan e a r c d \<Rightarrow> []
     | FundLoan e j \<Rightarrow> [(borrower (loans s j), msg_value e)]
     | Repay e j \<Rightarrow>
         (lender (loans s j), msg_value e) #
         (if active (loans s' j) \<or> collateralAmount (loans s j) = 0 then []
          else [(borrower (loans s j), collateralAmount (loans s j))])
     | ClaimCollateral e j \<Rightarrow> [(lender (loans s j), collateralAmount (loans s j))]
     | Pause e \<Rightarrow> []
     | Unpause e \<Rightarrow> [])"
  using assms by (cases t) (auto simp: returns split: if_splits)

lemma unfunded_loan_is_stuck:
  assumes "\<not> funded (loans s i)"
  shows "isl (repay e i s) \<and> isl (claimCollateral e i s)"
  using assms by (simp add: repay_def claimCollateral_def mods)

subsection \<open>The concrete ledger, evaluated\<close>

lemmas scenario = deployed_def loan_created_def loan_funded_def loan_paused_def constructor_def
  call_env_def always_def admin_def borrowerA_def lenderX_def

lemmas unfold_calls = createLoan_def fundLoan_def repay_def claimCollateral_def pause_def
  unpause_def pause_internal_def unpause_internal_def mods checked_add_def checked_mul_def
  exec_def commit_def Let_def word_le_nat_alt word_less_nat_alt

lemma loan_created_state:
  "loans loan_created 1 =
     \<lparr>borrower = 11, lender = 0, principal = 10, revenueSharePercent = 10,
      repaymentCapPercent = 120, totalRepaid = 0, funded = False, active = False,
      collateralAmount = 2, startTime = 0, duration = 604800\<rparr>"
  "nextLoanId loan_created = 2" "paused loan_created = False" "owner loan_created = 1"
  by (simp_all add: scenario unfold_calls)

lemma loan_funded_state:
  "loans loan_funded 1 =
     \<lparr>borrower = 11, lender = 22, principal = 10, revenueSharePercent = 10,
      repaymentCapPercent = 120, totalRepaid = 0, funded = True, active = True,
      collateralAmount = 2, startTime = 1000, duration = 604800\<rparr>"
  "nextLoanId loan_funded = 2" "paused loan_funded = False" "owner loan_funded = 1"
  by (simp_all add: scenario unfold_calls)

lemma loan_paused_state:
  "loans loan_paused 1 =
     \<lparr>borrower = 11, lender = 22, principal = 10, revenueSharePercent = 10,
      repaymentCapPercent = 120, totalRepaid = 0, funded = True, active = True,
      collateralAmount = 2, startTime = 1000, duration = 604800\<rparr>"
  "nextLoanId loan_paused = 2" "paused loan_paused = True" "owner loan_paused = 1"
  by (simp_all add: scenario unfold_calls)

lemma loan_unbounded_state:
  "loans loan_unbounded 1 =
     \<lparr>borrower = 11, lender = 22, principal = 10, revenueSharePercent = 10,
      repaymentCapPercent = 120, totalRepaid = 0, funded = True, active = True,
      collateralAmount = 2, startTime = 1000, duration = uint256_max\<rparr>"
  "nextLoanId loan_unbounded = 2" "paused loan_unbounded = False"
  by (simp_all add: loan_unbounded_def scenario unfold_calls uint256_max_def)

lemma counter_exhausted_state:
  "nextLoanId counter_exhausted = uint256_max" "paused counter_exhausted = False"
  by (simp_all add: counter_exhausted_def scenario)

lemma loan_repaid_state:
  "loans loan_repaid 1 =
     \<lparr>borrower = 11, lender = 22, principal = 10, revenueSharePercent = 10,
      repaymentCapPercent = 120, totalRepaid = 12, funded = True, active = False,
      collateralAmount = 0, startTime = 1000, duration = 604800\<rparr>"
  "nextLoanId loan_repaid = 2" "paused loan_repaid = False" "owner loan_repaid = 1"
  by (simp_all add: loan_repaid_def unfold_calls loan_funded_state call_env_def always_def
      borrowerA_def)

lemma loan_bigcap_state:
  "loans loan_bigcap 1 =
     \<lparr>borrower = 11, lender = 22, principal = 10, revenueSharePercent = 10,
      repaymentCapPercent =
        57896044618658097711785492504343953926634992332820282019728792003956564819968,
      totalRepaid = 0, funded = True, active = True,
      collateralAmount = 2, startTime = 1000, duration = 604800\<rparr>"
  "nextLoanId loan_bigcap = 2" "paused loan_bigcap = False"
  by (simp_all add: loan_bigcap_def scenario unfold_calls)

lemma loan_part_repaid_state:
  "loans loan_part_repaid 1 =
     \<lparr>borrower = 11, lender = 22, principal = 10, revenueSharePercent = 10,
      repaymentCapPercent = 120, totalRepaid = 1, funded = True, active = True,
      collateralAmount = 2, startTime = 1000, duration = 604800\<rparr>"
  "nextLoanId loan_part_repaid = 2" "paused loan_part_repaid = False"
  by (simp_all add: loan_part_repaid_def unfold_calls loan_funded_state call_env_def always_def
      borrowerA_def)

lemma scenario_reachable:
  "loan_created = run [CreateLoan (call_env borrowerA 2 100) 10 10 120 604800]
     (constructor (call_env admin 0 0))"
  "loan_funded = run [CreateLoan (call_env borrowerA 2 100) 10 10 120 604800,
     FundLoan (call_env lenderX 10 1000) 1] (constructor (call_env admin 0 0))"
  "loan_paused = run [CreateLoan (call_env borrowerA 2 100) 10 10 120 604800,
     FundLoan (call_env lenderX 10 1000) 1, Pause (call_env admin 0 2000)]
     (constructor (call_env admin 0 0))"
  by (simp_all add: loan_created_def loan_funded_def loan_paused_def deployed_def)

subsection \<open>Order of storage writes and transfers in \<open>repay\<close>\<close>

text \<open>
  Claim C1. The spec says that within \<open>repay\<close> every bookkeeping mutation of the loan
  record (the \<open>totalRepaid\<close> update, the clearing of \<open>active\<close>, the zeroing of
  \<open>collateralAmount\<close>) happens before any value transfer. The function does not do
  that: on a repayment that reaches the cap it writes \<open>totalRepaid\<close>, transfers the
  payment to the lender, and only then clears \<open>active\<close> and zeroes
  \<open>collateralAmount\<close>, before the second transfer. The theorem evaluates the function
  on the funded loan of the scenario, with a payment of 12 by the borrower.
\<close>

theorem repay_lender_transfer_before_closing_writes:
  "map_sum id snd (repay (call_env borrowerA 12 5000) 1 loan_funded) =
     Inr [SetTotalRepaid 1 12,
          Emit (LoanRepaid 1 12),
          Call lenderX 12,
          SetActive 1 False,
          SetCollateralAmount 1 0,
          Call borrowerA 2,
          Emit (LoanClosed 1)]"
  by (simp add: unfold_calls loan_funded_state call_env_def always_def borrowerA_def lenderX_def)

subsection \<open>Accounting of \<open>repay\<close>\<close>

text \<open>
  Claim C2. For every call of \<open>repay\<close> that returns, with payment \<open>msg.value\<close>:
  \<open>totalRepaid\<close> after the call is \<open>totalRepaid\<close> before plus the payment (as natural
  numbers, nothing wraps); the loan is closed (\<open>active\<close> is false) after the call
  exactly when the new \<open>totalRepaid\<close> is at least
  \<open>\<lfloor>principal * repaymentCapPercent / 100\<rfloor>\<close>; a closing call zeroes the collateral and
  transfers a positive collateral to the borrower after forwarding the payment to the
  lender, and a call that does not close leaves the collateral alone and only forwards the
  payment. The call returns for a funded and active loan, called by its borrower with a
  positive payment on a ledger that is not paused, whenever the arithmetic does not
  overflow and the recipients accept the transfers: the payment is not bounded by the
  amount still owed, so a payment beyond the threshold is accepted.
\<close>

theorem repay_accounting:
  "(repay e i s = Inr (s', fx) \<longrightarrow>
      unat (totalRepaid (loans s' i)) = unat (totalRepaid (loans s i)) + unat (msg_value e) \<and>
      (\<not> active (loans s' i) \<longleftrightarrow>
         requiredRepayment (loans s i) \<le> unat (totalRepaid (loans s' i))) \<and>
      (\<not> active (loans s' i) \<longrightarrow>
         collateralAmount (loans s' i) = 0 \<and>
         transfers fx =
           (lender (loans s i), msg_value e) #
           (if collateralAmount (loans s i) = 0 then []
            else [(borrower (loans s i), collateralAmount (loans s i))])) \<and>
      (active (loans s' i) \<longrightarrow>
         collateralAmount (loans s' i) = collateralAmount (loans s i) \<and>
         transfers fx = [(lender (loans s i), msg_value e)]))
   \<and>
   (\<not> paused s \<and> i \<noteq> 0 \<and> i < nextLoanId s \<and> msg_sender e = borrower (loans s i) \<and>
    funded (loans s i) \<and> active (loans s i) \<and> 0 < unat (msg_value e) \<and>
    unat (principal (loans s i)) * unat (repaymentCapPercent (loans s i)) < 2 ^ 256 \<and>
    unat (totalRepaid (loans s i)) + unat (msg_value e) < 2 ^ 256 \<and>
    accepts e (lender (loans s i)) (msg_value e) \<and>
    accepts e (borrower (loans s i)) (collateralAmount (loans s i))
    \<longrightarrow> (\<exists>m. repay e i s = Inr m))"
proof -
  have first: "unat (totalRepaid (loans s' i)) = unat (totalRepaid (loans s i)) + unat (msg_value e) \<and>
      (\<not> active (loans s' i) \<longleftrightarrow>
         requiredRepayment (loans s i) \<le> unat (totalRepaid (loans s' i))) \<and>
      (\<not> active (loans s' i) \<longrightarrow>
         collateralAmount (loans s' i) = 0 \<and>
         transfers fx =
           (lender (loans s i), msg_value e) #
           (if collateralAmount (loans s i) = 0 then []
            else [(borrower (loans s i), collateralAmount (loans s i))])) \<and>
      (active (loans s' i) \<longrightarrow>
         collateralAmount (loans s' i) = collateralAmount (loans s i) \<and>
         transfers fx = [(lender (loans s i), msg_value e)])"
    if ok: "repay e i s = Inr (s', fx)"
  proof -
    from ok have sum: "unat (totalRepaid (loans s i) + msg_value e)
        = unat (totalRepaid (loans s i)) + unat (msg_value e)"
      by (simp add: repay_Inr unat_checked_sum)
    from ok show ?thesis
      by (auto simp: repay_Inr sum split: if_splits)
  qed
  have second: "\<exists>m. repay e i s = Inr m"
    if "\<not> paused s \<and> i \<noteq> 0 \<and> i < nextLoanId s \<and> msg_sender e = borrower (loans s i) \<and>
      funded (loans s i) \<and> active (loans s i) \<and> 0 < unat (msg_value e) \<and>
      unat (principal (loans s i)) * unat (repaymentCapPercent (loans s i)) < 2 ^ 256 \<and>
      unat (totalRepaid (loans s i)) + unat (msg_value e) < 2 ^ 256 \<and>
      accepts e (lender (loans s i)) (msg_value e) \<and>
      accepts e (borrower (loans s i)) (collateralAmount (loans s i))"
    using that by (auto simp: repay_Inr unat_gt_0)
  from first second show ?thesis by blast
qed

text \<open>The borrower of the scenario pays 20 where 12 are required.\<close>

theorem repay_accounting_witness:
  "requiredRepayment (loans loan_funded 1) = 12 \<and>
   unat (totalRepaid (loans loan_funded 1)) = 0 \<and>
   unat (totalRepaid (loans (commit (repay (call_env borrowerA 20 5000) 1 loan_funded) loan_funded) 1)) = 20 \<and>
   \<not> active (loans (commit (repay (call_env borrowerA 20 5000) 1 loan_funded) loan_funded) 1) \<and>
   collateralAmount (loans (commit (repay (call_env borrowerA 20 5000) 1 loan_funded) loan_funded) 1) = 0 \<and>
   map_sum id (transfers \<circ> snd) (repay (call_env borrowerA 20 5000) 1 loan_funded) =
     Inr [(lenderX, 20), (borrowerA, 2)]"
proof -
  let ?e = "call_env borrowerA 20 5000"
  have pre: "\<not> paused loan_funded \<and> (1::uint256) \<noteq> 0 \<and> 1 < nextLoanId loan_funded \<and>
      msg_sender ?e = borrower (loans loan_funded 1) \<and>
      funded (loans loan_funded 1) \<and> active (loans loan_funded 1) \<and> 0 < unat (msg_value ?e) \<and>
      unat (principal (loans loan_funded 1)) * unat (repaymentCapPercent (loans loan_funded 1)) < 2 ^ 256 \<and>
      unat (totalRepaid (loans loan_funded 1)) + unat (msg_value ?e) < 2 ^ 256 \<and>
      accepts ?e (lender (loans loan_funded 1)) (msg_value ?e) \<and>
      accepts ?e (borrower (loans loan_funded 1)) (collateralAmount (loans loan_funded 1))"
    by (simp add: loan_funded_state call_env_def always_def borrowerA_def word_less_nat_alt)
  have req: "requiredRepayment (loans loan_funded 1) = 12"
    by (simp add: requiredRepayment_def loan_funded_state)
  from repay_accounting [of ?e 1 loan_funded] pre
  obtain s' fx where run: "repay ?e 1 loan_funded = Inr (s', fx)"
    by (metis surj_pair)
  from repay_accounting [of ?e 1 loan_funded s' fx] run req show ?thesis
    by (simp add: commit_def loan_funded_state call_env_def borrowerA_def lenderX_def)
qed

subsection \<open>Validation in \<open>createLoan\<close>\<close>

text \<open>
  Claim C3, as the spec states it: a call of \<open>createLoan\<close> succeeds exactly when
  \<open>principal > 0\<close>, \<open>revenueSharePercent > 0\<close>, \<open>repaymentCapPercent \<ge> 100\<close>,
  \<open>duration > 0\<close> and \<open>msg.value \<le> principal\<close>. This fails at a call whose arguments
  satisfy the five constraints on a paused ledger (the function carries
  \<open>whenNotPaused\<close>), and at such a call on a ledger whose counter \<open>nextLoanId\<close>
  cannot be incremented.
\<close>

theorem createLoan_gate_counterexample:
  "(0::uint256) < 10 \<and> (100::uint256) \<le> 120 \<and> (0::uint256) < 604800 \<and>
   msg_value (call_env borrowerA 2 3000) \<le> 10 \<and>
   createLoan (call_env borrowerA 2 3000) 10 10 120 604800 loan_paused = Inl EnforcedPause \<and>
   createLoan (call_env borrowerA 2 3000) 10 10 120 604800 counter_exhausted = Inl PanicOverflow"
  by (simp add: createLoan_def mods checked_add_def loan_paused_state counter_exhausted_state
      call_env_def uint256_max_def word_le_nat_alt word_less_nat_alt)

text \<open>
  Claim C3, amended: on a ledger that is not paused and whose counter \<open>nextLoanId\<close> is
  below the largest \<open>uint256\<close>, a call of \<open>createLoan\<close> returns exactly when the five
  constraints hold; when the first four hold and \<open>msg.value\<close> exceeds the principal
  (in particular when it is the principal plus one) the call reverts with
  \<open>CollateralTooHigh\<close>, while a \<open>msg.value\<close> equal to the principal is accepted; every
  revert is one of the five validation errors and leaves the storage unchanged.
\<close>

theorem createLoan_validation:
  assumes "\<not> paused s" and "unat (nextLoanId s) + 1 < 2 ^ 256"
  shows "((\<exists>m. createLoan e a r c d s = Inr m) \<longleftrightarrow>
            0 < a \<and> 0 < r \<and> 100 \<le> c \<and> 0 < d \<and> msg_value e \<le> a) \<and>
         (0 < a \<and> 0 < r \<and> 100 \<le> c \<and> 0 < d \<and> a < msg_value e \<longrightarrow>
            createLoan e a r c d s = Inl CollateralTooHigh) \<and>
         (createLoan e a r c d s = Inl err \<longrightarrow>
            err \<in> {InvalidPrincipal, InvalidRevenueShare, InvalidRepaymentCap, InvalidDuration,
                   CollateralTooHigh} \<and>
            commit (createLoan e a r c d s) s = s)"
proof -
  have "(\<exists>m. createLoan e a r c d s = Inr m) \<longleftrightarrow>
            0 < a \<and> 0 < r \<and> 100 \<le> c \<and> 0 < d \<and> msg_value e \<le> a"
    using assms by (simp add: createLoan_Inr word_gt_0)
  moreover have "0 < a \<and> 0 < r \<and> 100 \<le> c \<and> 0 < d \<and> a < msg_value e \<longrightarrow>
            createLoan e a r c d s = Inl CollateralTooHigh"
    using assms by (auto simp: createLoan_def mods)
  moreover have "createLoan e a r c d s = Inl err \<longrightarrow>
            err \<in> {InvalidPrincipal, InvalidRevenueShare, InvalidRepaymentCap, InvalidDuration,
                   CollateralTooHigh} \<and>
            commit (createLoan e a r c d s) s = s"
    using assms by (auto simp: createLoan_def mods checked_add_def commit_def Let_def split: if_splits)
  ultimately show ?thesis by blast
qed

text \<open>A collateral of 10 on a principal of 10 is accepted, a collateral of 11 is not.\<close>

theorem createLoan_validation_witness:
  "\<not> paused loan_created \<and> unat (nextLoanId loan_created) + 1 < 2 ^ 256 \<and>
   isl (createLoan (call_env borrowerA 10 3000) 10 10 120 604800 loan_created) = False \<and>
   createLoan (call_env borrowerA 11 3000) 10 10 120 604800 loan_created = Inl CollateralTooHigh \<and>
   commit (createLoan (call_env borrowerA 11 3000) 10 10 120 604800 loan_created) loan_created
     = loan_created"
proof -
  have pre: "\<not> paused loan_created" "unat (nextLoanId loan_created) + 1 < 2 ^ 256"
    by (simp_all add: loan_created_state)
  have "\<exists>m. createLoan (call_env borrowerA 10 3000) 10 10 120 604800 loan_created = Inr m"
    using createLoan_validation [OF pre, where e = "call_env borrowerA 10 3000" and a = 10 and r = 10
        and c = 120 and d = 604800]
    by (simp add: call_env_def)
  moreover have "createLoan (call_env borrowerA 11 3000) 10 10 120 604800 loan_created
      = Inl CollateralTooHigh"
    using createLoan_validation [OF pre, where e = "call_env borrowerA 11 3000" and a = 10 and r = 10
        and c = 120 and d = 604800]
    by (simp add: call_env_def word_less_nat_alt)
  moreover from this have "commit (createLoan (call_env borrowerA 11 3000) 10 10 120 604800 loan_created)
      loan_created = loan_created"
    using createLoan_validation [OF pre, where e = "call_env borrowerA 11 3000" and a = 10 and r = 10
        and c = 120 and d = 604800 and err = CollateralTooHigh]
    by simp
  ultimately show ?thesis using pre by auto
qed

subsection \<open>Maturity in \<open>claimCollateral\<close>\<close>

text \<open>
  Claim C4, as the spec states it: for a funded and active loan, \<open>claimCollateral\<close>
  called by the lender fails with \<open>LoanNotMatured\<close> whenever
  \<open>block.timestamp \<le> startTime + duration\<close>. This fails on a paused ledger, where the
  call reverts with the pause error, and for a loan whose \<open>startTime + duration\<close> does
  not fit in 256 bits, where the checked addition reverts with a panic.
\<close>

theorem claimCollateral_not_matured_counterexample:
  "funded (loans loan_paused 1) \<and> active (loans loan_paused 1) \<and>
   lender (loans loan_paused 1) = msg_sender (call_env lenderX 0 1500) \<and>
   unat (block_timestamp (call_env lenderX 0 1500))
     \<le> unat (startTime (loans loan_paused 1)) + unat (duration (loans loan_paused 1)) \<and>
   claimCollateral (call_env lenderX 0 1500) 1 loan_paused = Inl EnforcedPause \<and>
   funded (loans loan_unbounded 1) \<and> active (loans loan_unbounded 1) \<and>
   lender (loans loan_unbounded 1) = msg_sender (call_env lenderX 0 1500) \<and>
   unat (block_timestamp (call_env lenderX 0 1500))
     \<le> unat (startTime (loans loan_unbounded 1)) + unat (duration (loans loan_unbounded 1)) \<and>
   claimCollateral (call_env lenderX 0 1500) 1 loan_unbounded = Inl PanicOverflow"
  by (simp add: claimCollateral_def mods checked_add_def Let_def loan_paused_state
      loan_unbounded_state call_env_def lenderX_def uint256_max_def
      word_le_nat_alt word_less_nat_alt)

text \<open>
  Claim C4, amended: for a loan of the ledger that is funded and active,
  \<open>claimCollateral\<close> called by the lender reverts with \<open>LoanNotMatured\<close> whenever the
  ledger is not paused, \<open>startTime + duration\<close> fits in 256 bits and
  \<open>block.timestamp \<le> startTime + duration\<close>, the boundary instant included; and a call
  that returns has \<open>block.timestamp > startTime + duration\<close>, \<open>totalRepaid\<close> strictly
  below the required repayment, and a positive \<open>collateralAmount\<close>.
\<close>

theorem claimCollateral_maturity:
  assumes "i \<noteq> 0" and "i < nextLoanId s"
    and "funded (loans s i)" and "active (loans s i)"
    and "msg_sender e = lender (loans s i)"
  shows "(\<not> paused s \<and>
          unat (startTime (loans s i)) + unat (duration (loans s i)) < 2 ^ 256 \<and>
          unat (block_timestamp e) \<le> unat (startTime (loans s i)) + unat (duration (loans s i))
          \<longrightarrow> claimCollateral e i s = Inl LoanNotMatured) \<and>
         (claimCollateral e i s = Inr m \<longrightarrow>
            unat (startTime (loans s i)) + unat (duration (loans s i)) < unat (block_timestamp e) \<and>
            unat (totalRepaid (loans s i)) < requiredRepayment (loans s i) \<and>
            0 < unat (collateralAmount (loans s i)))"
proof -
  have "claimCollateral e i s = Inl LoanNotMatured"
    if "\<not> paused s"
      and fits: "unat (startTime (loans s i)) + unat (duration (loans s i)) < 2 ^ 256"
      and early: "unat (block_timestamp e)
        \<le> unat (startTime (loans s i)) + unat (duration (loans s i))"
  proof -
    from fits early have "block_timestamp e \<le> startTime (loans s i) + duration (loans s i)"
      by (simp add: word_le_nat_alt unat_checked_sum)
    with that assms show ?thesis
      by (simp add: claimCollateral_def mods checked_add_def Let_def not_le)
  qed
  moreover have "unat (startTime (loans s i)) + unat (duration (loans s i)) < unat (block_timestamp e) \<and>
            unat (totalRepaid (loans s i)) < requiredRepayment (loans s i) \<and>
            0 < unat (collateralAmount (loans s i))"
    if "claimCollateral e i s = Inr m"
    using that by (simp add: claimCollateral_Inr unat_gt_0)
  ultimately show ?thesis by blast
qed

text \<open>
  The loan of the scenario matures at 1000 + 604800: a claim at that instant is rejected,
  a claim one second later returns.
\<close>

theorem claimCollateral_maturity_witness:
  "(1::uint256) \<noteq> 0 \<and> 1 < nextLoanId loan_funded \<and>
   funded (loans loan_funded 1) \<and> active (loans loan_funded 1) \<and>
   lender (loans loan_funded 1) = lenderX \<and> \<not> paused loan_funded \<and>
   unat (startTime (loans loan_funded 1)) + unat (duration (loans loan_funded 1)) = 605800 \<and>
   claimCollateral (call_env lenderX 0 605800) 1 loan_funded = Inl LoanNotMatured \<and>
   isl (claimCollateral (call_env lenderX 0 605801) 1 loan_funded) = False \<and>
   unat (totalRepaid (loans loan_funded 1)) < requiredRepayment (loans loan_funded 1) \<and>
   0 < unat (collateralAmount (loans loan_funded 1))"
proof -
  have pre: "(1::uint256) \<noteq> 0" "1 < nextLoanId loan_funded"
    "funded (loans loan_funded 1)" "active (loans loan_funded 1)"
    by (simp_all add: loan_funded_state word_less_nat_alt)
  have who: "msg_sender (call_env lenderX 0 605800) = lender (loans loan_funded 1)"
    and who': "msg_sender (call_env lenderX 0 605801) = lender (loans loan_funded 1)"
    by (simp_all add: loan_funded_state call_env_def lenderX_def)
  have "\<exists>m. claimCollateral (call_env lenderX 0 605801) 1 loan_funded = Inr m"
    by (simp add: claimCollateral_Inr loan_funded_state call_env_def always_def lenderX_def
        requiredRepayment_def word_less_nat_alt)
  then obtain m where late: "claimCollateral (call_env lenderX 0 605801) 1 loan_funded = Inr m"
    by blast
  from claimCollateral_maturity [OF pre who, where m = m]
  have early: "claimCollateral (call_env lenderX 0 605800) 1 loan_funded = Inl LoanNotMatured"
    by (simp add: loan_funded_state call_env_def)
  from claimCollateral_maturity [OF pre who', where m = m] late
  have "unat (totalRepaid (loans loan_funded 1)) < requiredRepayment (loans loan_funded 1) \<and>
      0 < unat (collateralAmount (loans loan_funded 1))"
    by simp
  with early late pre show ?thesis
    by (simp add: loan_funded_state lenderX_def)
qed

subsection \<open>Events of \<open>claimCollateral\<close>\<close>

text \<open>
  Claim C5. Every call of \<open>claimCollateral\<close> that returns has emitted exactly three
  events, \<open>LoanDefaulted\<close>, then \<open>CollateralClaimed\<close>, then \<open>LoanClosed\<close>, in this
  order, and all three precede the only external transfer of the call, the transfer of
  the collateral to the lender, which is the last effect of the call.
\<close>

theorem claimCollateral_event_order:
  assumes "claimCollateral e i s = Inr (s', fx)"
  shows "fx = [SetActive i False,
               SetCollateralAmount i 0,
               Emit (LoanDefaulted i),
               Emit (CollateralClaimed i (msg_sender e)),
               Emit (LoanClosed i),
               Call (lender (loans s i)) (collateralAmount (loans s i))]
         \<and> events_of fx = [LoanDefaulted i, CollateralClaimed i (msg_sender e), LoanClosed i]
         \<and> transfers fx = [(lender (loans s i), collateralAmount (loans s i))]
         \<and> (\<exists>before. fx = before @ [Call (lender (loans s i)) (collateralAmount (loans s i))]
               \<and> events_of before = events_of fx \<and> transfers before = [])"
  using assms by (simp add: claimCollateral_Inr)

text \<open>The lender of the scenario claims the collateral after maturity.\<close>

theorem claimCollateral_event_order_witness:
  "map_sum id snd (claimCollateral (call_env lenderX 0 700000) 1 loan_funded) =
     Inr [SetActive 1 False, SetCollateralAmount 1 0, Emit (LoanDefaulted 1),
          Emit (CollateralClaimed 1 lenderX), Emit (LoanClosed 1), Call lenderX 2]
   \<and> events_of [SetActive 1 False, SetCollateralAmount 1 0, Emit (LoanDefaulted 1),
          Emit (CollateralClaimed 1 lenderX), Emit (LoanClosed 1), Call lenderX 2] =
       [LoanDefaulted 1, CollateralClaimed 1 lenderX, LoanClosed 1]"
proof -
  have "\<exists>s' fx. claimCollateral (call_env lenderX 0 700000) 1 loan_funded = Inr (s', fx)"
    by (simp add: claimCollateral_Inr loan_funded_state call_env_def always_def lenderX_def
        requiredRepayment_def word_less_nat_alt)
  then obtain s' fx
    where run: "claimCollateral (call_env lenderX 0 700000) 1 loan_funded = Inr (s', fx)"
    by blast
  from claimCollateral_event_order [OF run] run show ?thesis
    by (simp add: loan_funded_state call_env_def lenderX_def)
qed

subsection \<open>No resurrection\<close>

text \<open>
  Claim C6. For every loan \<open>i\<close> of the ledger and all sequences \<open>ts\<close> and \<open>us\<close> of
  transactions (calls of \<open>createLoan\<close>, \<open>fundLoan\<close>, \<open>repay\<close>, \<open>claimCollateral\<close>,
  \<open>pause\<close> and \<open>unpause\<close>, by any callers, at any times, reverting or not): a funded
  loan is still funded after \<open>ts\<close>; a loan that was active and is no longer active after
  \<open>ts\<close> is funded then and is not active after any further \<open>us\<close>; and a loan that is
  funded and not active (closed by repayment or by default) stays not active after \<open>ts\<close>,
  where every call of \<open>fundLoan\<close> on it reverts, with \<open>LoanAlreadyFunded\<close> unless the
  ledger is paused. The flag \<open>active\<close> "becomes false" when it goes from true to false:
  a loan that was never funded has the flag false from its creation and gets it set by
  its one funding.
\<close>

theorem closed_loan_never_reopens:
  assumes "i \<noteq> 0" and "i < nextLoanId s"
  shows "(funded (loans s i) \<longrightarrow> funded (loans (run ts s) i)) \<and>
         (active (loans s i) \<and> \<not> active (loans (run ts s) i)
            \<longrightarrow> funded (loans (run ts s) i) \<and> \<not> active (loans (run us (run ts s)) i)) \<and>
         (funded (loans s i) \<and> \<not> active (loans s i)
            \<longrightarrow> \<not> active (loans (run ts s) i) \<and>
                (fundLoan e i (run ts s) = Inl EnforcedPause \<or>
                 fundLoan e i (run ts s) = Inl LoanAlreadyFunded))"
proof -
  have ex: "i < nextLoanId (run ts s)"
    using assms by (simp add: run_exists)
  have a: "funded (loans (run ts s) i)" if "funded (loans s i)"
    using that assms by (simp add: run_funded)
  have b: "funded (loans (run ts s) i) \<and> \<not> active (loans (run us (run ts s)) i)"
    if "active (loans s i)" and "\<not> active (loans (run ts s) i)"
  proof -
    from that assms have "funded (loans (run ts s) i)"
      by (simp add: run_deactivated)
    with that ex show ?thesis by (simp add: run_closed)
  qed
  have c: "\<not> active (loans (run ts s) i) \<and>
      (fundLoan e i (run ts s) = Inl EnforcedPause \<or>
       fundLoan e i (run ts s) = Inl LoanAlreadyFunded)"
    if "funded (loans s i)" and "\<not> active (loans s i)"
  proof -
    from that assms have "\<not> active (loans (run ts s) i)"
      by (simp add: run_closed)
    moreover from a that ex assms(1) have "fundLoan e i (run ts s) = Inl EnforcedPause \<or>
       fundLoan e i (run ts s) = Inl LoanAlreadyFunded"
      by (auto simp: fundLoan_def mods)
    ultimately show ?thesis by simp
  qed
  from a b c show ?thesis by blast
qed

text \<open>
  The loan of the scenario is closed by a repayment of 12; a new funding, a repayment and
  a claim after that do not reactivate it.
\<close>

theorem closed_loan_never_reopens_witness:
  "(1::uint256) \<noteq> 0 \<and> 1 < nextLoanId loan_funded \<and>
   funded (loans loan_funded 1) \<and> active (loans loan_funded 1) \<and>
   active (loans (run [Repay (call_env borrowerA 12 5000) 1] loan_funded) 1) = False \<and>
   funded (loans (run [Repay (call_env borrowerA 12 5000) 1] loan_funded) 1) \<and>
   active (loans (run [FundLoan (call_env lenderX 10 6000) 1,
                        Repay (call_env borrowerA 1 7000) 1,
                        ClaimCollateral (call_env lenderX 0 700000) 1]
                   (run [Repay (call_env borrowerA 12 5000) 1] loan_funded)) 1) = False \<and>
   fundLoan (call_env lenderX 10 6000) 1 loan_repaid = Inl LoanAlreadyFunded"
proof -
  let ?ts = "[Repay (call_env borrowerA 12 5000) 1]"
  let ?us = "[FundLoan (call_env lenderX 10 6000) 1, Repay (call_env borrowerA 1 7000) 1,
    ClaimCollateral (call_env lenderX 0 700000) 1]"
  have pre: "(1::uint256) \<noteq> 0" "1 < nextLoanId loan_funded"
    by (simp_all add: loan_funded_state word_less_nat_alt)
  have before: "funded (loans loan_funded 1)" "active (loans loan_funded 1)"
    by (simp_all add: loan_funded_state)
  have after: "\<not> active (loans (run ?ts loan_funded) 1)"
    using loan_repaid_state(1) by (simp add: loan_repaid_def)
  from closed_loan_never_reopens [OF pre, where ts = ?ts and us = ?us] before after
  have never: "funded (loans (run ?ts loan_funded) 1) \<and>
      \<not> active (loans (run ?us (run ?ts loan_funded)) 1)"
    by blast
  have pre': "(1::uint256) \<noteq> 0" "1 < nextLoanId loan_repaid"
    by (simp_all add: loan_repaid_state word_less_nat_alt)
  have open': "fundLoan (call_env lenderX 10 6000) 1 loan_repaid \<noteq> Inl EnforcedPause"
    by (simp add: fundLoan_def mods loan_repaid_state word_le_nat_alt)
  from closed_loan_never_reopens [OF pre', where ts = "[]" and e = "call_env lenderX 10 6000"]
    open'
  have "fundLoan (call_env lenderX 10 6000) 1 loan_repaid = Inl LoanAlreadyFunded"
    by (simp add: loan_repaid_state)
  with pre before after never show ?thesis by simp
qed

subsection \<open>Failures of \<open>fundLoan\<close>\<close>

text \<open>
  Claim C7, as the spec states it: \<open>fundLoan\<close> fails with a distinct reason for each of
  a nonexistent loan id, a loan already funded, a loan already active, a caller equal to
  the borrower, and a value not equal to the principal. This fails for the active loan:
  the funded loan of the scenario is active, and funding it is rejected with the reason of
  a funded loan, \<open>LoanAlreadyFunded\<close>, not with a reason of its own. It also fails on
  the paused ledger, where each of the named causes is answered with the one reason
  \<open>EnforcedPause\<close>.
\<close>

theorem fundLoan_reasons_counterexample:
  "funded (loans loan_funded 1) \<and> active (loans loan_funded 1) \<and>
   paused loan_funded = False \<and>
   fundLoan (call_env admin 10 1001) 1 loan_funded = Inl LoanAlreadyFunded \<and>
   paused loan_paused \<and>
   fundLoan (call_env lenderX 10 3000) 7 loan_paused = Inl EnforcedPause \<and>
   fundLoan (call_env lenderX 10 3000) 1 loan_paused = Inl EnforcedPause \<and>
   fundLoan (call_env borrowerA 10 3000) 1 loan_paused = Inl EnforcedPause \<and>
   fundLoan (call_env lenderX 5 3000) 1 loan_paused = Inl EnforcedPause"
  by (simp add: fundLoan_def mods Let_def loan_funded_state loan_paused_state
      call_env_def word_le_nat_alt word_less_nat_alt)

text \<open>
  Claim C7, amended: on every ledger that transactions reach from deployment, \<open>fundLoan\<close>
  reverts with \<open>EnforcedPause\<close> while the ledger is paused, and otherwise with a reason
  of its own for each of four causes, reported when its check is the first one that fails:
  the loan id does not exist (\<open>LoanDoesNotExist\<close>), the loan is already funded
  (\<open>LoanAlreadyFunded\<close>), the caller is the borrower of the loan
  (\<open>BorrowerCannotFundOwnLoan\<close>), the value sent is not the principal
  (\<open>IncorrectFundingAmount\<close>). A loan that is already active is funded, and is rejected
  with \<open>LoanAlreadyFunded\<close>; the reason \<open>LoanAlreadyActive\<close> is never reported. The
  five reasons that are reported are pairwise different. A call that reverts leaves the
  storage unchanged; in particular after a call of \<open>fundLoan\<close> that returned, any
  further call of \<open>fundLoan\<close> on the same loan reverts with \<open>LoanAlreadyFunded\<close> and
  leaves the storage that the first call established.
\<close>

theorem fundLoan_failure_reasons:
  assumes "s = run ts (constructor e0)"
  shows
  "(paused s \<longrightarrow> fundLoan e i s = Inl EnforcedPause) \<and>
   (\<not> paused s \<and> (i = 0 \<or> nextLoanId s \<le> i) \<longrightarrow> fundLoan e i s = Inl LoanDoesNotExist) \<and>
   (\<not> paused s \<and> i \<noteq> 0 \<and> i < nextLoanId s \<and> (funded (loans s i) \<or> active (loans s i))
      \<longrightarrow> fundLoan e i s = Inl LoanAlreadyFunded) \<and>
   (\<not> paused s \<and> i \<noteq> 0 \<and> i < nextLoanId s \<and> \<not> funded (loans s i) \<and>
    msg_sender e = borrower (loans s i)
      \<longrightarrow> fundLoan e i s = Inl BorrowerCannotFundOwnLoan) \<and>
   (\<not> paused s \<and> i \<noteq> 0 \<and> i < nextLoanId s \<and> \<not> funded (loans s i) \<and>
    msg_sender e \<noteq> borrower (loans s i) \<and> msg_value e \<noteq> principal (loans s i)
      \<longrightarrow> fundLoan e i s = Inl IncorrectFundingAmount) \<and>
   fundLoan e i s \<noteq> Inl LoanAlreadyActive \<and>
   distinct [EnforcedPause, LoanDoesNotExist, LoanAlreadyFunded, BorrowerCannotFundOwnLoan,
     IncorrectFundingAmount] \<and>
   (fundLoan e i s = Inl err \<longrightarrow> commit (fundLoan e i s) s = s) \<and>
   (fundLoan e i s = Inr (s', fx) \<longrightarrow>
      fundLoan e' i s' = Inl LoanAlreadyFunded \<and> commit (fundLoan e' i s') s' = s')"
proof -
  have inv: "active (loans s i) \<longrightarrow> funded (loans s i)"
    unfolding assms using reachable_active_funded by blast
  have again: "fundLoan e' i s' = Inl LoanAlreadyFunded" if "fundLoan e i s = Inr (s', fx)"
    using that by (auto simp: fundLoan_Inr) (simp add: fundLoan_def mods not_le)
  show ?thesis
    using again inv by (auto simp: fundLoan_def mods commit_def Let_def not_le)
qed

text \<open>One call for each reason, and a second funding of the loan of the scenario.\<close>

theorem fundLoan_failure_reasons_witness:
  "fundLoan (call_env lenderX 10 3000) 1 loan_paused = Inl EnforcedPause \<and>
   fundLoan (call_env lenderX 10 1000) 7 loan_created = Inl LoanDoesNotExist \<and>
   active (loans loan_funded 1) \<and>
   fundLoan (call_env lenderX 10 1000) 1 loan_funded = Inl LoanAlreadyFunded \<and>
   fundLoan (call_env borrowerA 10 1000) 1 loan_created = Inl BorrowerCannotFundOwnLoan \<and>
   fundLoan (call_env lenderX 5 1000) 1 loan_created = Inl IncorrectFundingAmount \<and>
   commit (fundLoan (call_env lenderX 5 1000) 1 loan_created) loan_created = loan_created \<and>
   isl (fundLoan (call_env lenderX 10 1000) 1 loan_created) = False \<and>
   commit (fundLoan (call_env lenderX 10 1000) 1 loan_created) loan_created = loan_funded \<and>
   commit (fundLoan (call_env admin 10 1001) 1 loan_funded) loan_funded = loan_funded"
proof -
  note created = scenario_reachable(1) and funded = scenario_reachable(2)
    and paused = scenario_reachable(3)
  have p: "fundLoan (call_env lenderX 10 3000) 1 loan_paused = Inl EnforcedPause"
    using fundLoan_failure_reasons [OF paused, where i = 1
        and e = "call_env lenderX 10 3000"]
    by (simp add: loan_paused_state)
  have a: "fundLoan (call_env lenderX 10 1000) 7 loan_created = Inl LoanDoesNotExist"
    using fundLoan_failure_reasons [OF created, where i = 7
        and e = "call_env lenderX 10 1000"]
    by (simp add: loan_created_state word_le_nat_alt)
  have act: "active (loans loan_funded 1)"
    by (simp add: loan_funded_state)
  have b: "fundLoan (call_env lenderX 10 1000) 1 loan_funded = Inl LoanAlreadyFunded"
    using fundLoan_failure_reasons [OF funded, where i = 1
        and e = "call_env lenderX 10 1000"]
    by (simp add: loan_funded_state word_less_nat_alt)
  have d: "fundLoan (call_env borrowerA 10 1000) 1 loan_created = Inl BorrowerCannotFundOwnLoan"
    using fundLoan_failure_reasons [OF created, where i = 1
        and e = "call_env borrowerA 10 1000"]
    by (simp add: loan_created_state call_env_def borrowerA_def word_less_nat_alt)
  have e: "fundLoan (call_env lenderX 5 1000) 1 loan_created = Inl IncorrectFundingAmount"
    using fundLoan_failure_reasons [OF created, where i = 1
        and e = "call_env lenderX 5 1000"]
    by (simp add: loan_created_state call_env_def lenderX_def word_less_nat_alt)
  have f: "commit (fundLoan (call_env lenderX 5 1000) 1 loan_created) loan_created = loan_created"
    using fundLoan_failure_reasons [OF created, where i = 1
        and e = "call_env lenderX 5 1000" and err = IncorrectFundingAmount] e
    by blast
  have "\<exists>m. fundLoan (call_env lenderX 10 1000) 1 loan_created = Inr m"
    by (simp add: fundLoan_Inr loan_created_state call_env_def always_def lenderX_def
        word_less_nat_alt)
  then obtain m where m: "fundLoan (call_env lenderX 10 1000) 1 loan_created = Inr m"
    by blast
  then have "fst m = loan_funded"
    by (simp add: loan_funded_def commit_def)
  with m have g: "fundLoan (call_env lenderX 10 1000) 1 loan_created = Inr (loan_funded, snd m)"
    by (metis prod.collapse)
  have h: "commit (fundLoan (call_env admin 10 1001) 1 loan_funded) loan_funded = loan_funded"
    using fundLoan_failure_reasons [OF created, where i = 1
        and e = "call_env lenderX 10 1000" and s' = loan_funded
        and e' = "call_env admin 10 1001" and fx = "snd m"] g
    by blast
  from p a act b d e f g h show ?thesis
    by (simp add: commit_def)
qed

subsection \<open>The pause switch\<close>

text \<open>
  Claim C8. While the ledger is paused, every call of \<open>createLoan\<close>, \<open>fundLoan\<close>,
  \<open>repay\<close> and \<open>claimCollateral\<close> reverts with the same error \<open>EnforcedPause\<close>,
  whatever its arguments, its caller and the rest of the storage. A caller who is not the
  owner cannot pause or unpause; the owner can; and no transaction changes the pause flag
  except \<open>pause\<close> and \<open>unpause\<close> sent by the owner. \<open>getLoan\<close> does not read the
  pause flag: it answers for the ids in \<open>[1, nextLoanId)\<close> with the stored loan, paused
  or not.
\<close>

theorem pause_switch:
  "(paused s \<longrightarrow>
      createLoan e a r c d s = Inl EnforcedPause \<and>
      fundLoan e i s = Inl EnforcedPause \<and>
      repay e i s = Inl EnforcedPause \<and>
      claimCollateral e i s = Inl EnforcedPause) \<and>
   (msg_sender e \<noteq> owner s \<longrightarrow>
      pause e s = Inl (OwnableUnauthorizedAccount (msg_sender e)) \<and>
      unpause e s = Inl (OwnableUnauthorizedAccount (msg_sender e))) \<and>
   (msg_sender e = owner s \<longrightarrow>
      paused (commit (pause e s) s) \<and> \<not> paused (commit (unpause e s) s)) \<and>
   (paused (commit (perform t s) s) \<noteq> paused s \<longrightarrow>
      (\<exists>e'. (t = Pause e' \<or> t = Unpause e') \<and> msg_sender e' = owner s)) \<and>
   getLoan i s = (if i = 0 \<or> nextLoanId s \<le> i then Inl LoanDoesNotExist else Inr (loans s i)) \<and>
   getLoan i (s\<lparr>paused := True\<rparr>) = getLoan i (s\<lparr>paused := False\<rparr>)"
proof -
  have gate: "createLoan e a r c d s = Inl EnforcedPause \<and>
      fundLoan e i s = Inl EnforcedPause \<and>
      repay e i s = Inl EnforcedPause \<and>
      claimCollateral e i s = Inl EnforcedPause" if "paused s"
    using that by (simp add: createLoan_def fundLoan_def repay_def claimCollateral_def
        nonReentrant_def whenNotPaused_def)
  have stranger: "pause e s = Inl (OwnableUnauthorizedAccount (msg_sender e)) \<and>
      unpause e s = Inl (OwnableUnauthorizedAccount (msg_sender e))" if "msg_sender e \<noteq> owner s"
    using that by (auto simp: pause_def unpause_def onlyOwner_def)
  have toggles: "paused (commit (pause e s) s) \<and> \<not> paused (commit (unpause e s) s)"
    if "msg_sender e = owner s"
    using that by (simp add: pause_def unpause_def pause_internal_def unpause_internal_def mods
        exec_def commit_def)
  have view: "getLoan i (s\<lparr>paused := True\<rparr>) = getLoan i (s\<lparr>paused := False\<rparr>)"
    by (simp add: getLoan_eq)
  from gate stranger toggles commit_paused_cases [of t s] getLoan_eq [of i s] view
  show ?thesis by blast
qed

text \<open>The paused ledger of the scenario, and a borrower who tries the switch.\<close>

theorem pause_switch_witness:
  "paused loan_paused \<and>
   createLoan (call_env borrowerA 2 3000) 10 10 120 604800 loan_paused = Inl EnforcedPause \<and>
   fundLoan (call_env lenderX 10 3000) 1 loan_paused = Inl EnforcedPause \<and>
   repay (call_env borrowerA 12 3000) 1 loan_paused = Inl EnforcedPause \<and>
   claimCollateral (call_env lenderX 0 700000) 1 loan_paused = Inl EnforcedPause \<and>
   getLoan 1 loan_paused = Inr (loans loan_funded 1) \<and>
   pause (call_env borrowerA 0 3000) loan_funded = Inl (OwnableUnauthorizedAccount borrowerA) \<and>
   unpause (call_env borrowerA 0 3000) loan_paused = Inl (OwnableUnauthorizedAccount borrowerA) \<and>
   paused (commit (pause (call_env admin 0 3000) loan_funded) loan_funded) \<and>
   paused (commit (unpause (call_env admin 0 3000) loan_paused) loan_paused) = False"
proof -
  have p: "paused loan_paused" by (simp add: loan_paused_state)
  have who: "msg_sender (call_env borrowerA 0 3000) \<noteq> owner loan_funded"
    "msg_sender (call_env borrowerA 0 3000) \<noteq> owner loan_paused"
    "msg_sender (call_env admin 0 3000) = owner loan_funded"
    "msg_sender (call_env admin 0 3000) = owner loan_paused"
    by (simp_all add: call_env_def borrowerA_def admin_def loan_funded_state loan_paused_state)
  from p pause_switch [where s = loan_paused and e = "call_env borrowerA 2 3000" and a = 10
      and r = 10 and c = 120 and d = 604800]
  have 1: "createLoan (call_env borrowerA 2 3000) 10 10 120 604800 loan_paused = Inl EnforcedPause"
    by blast
  from p pause_switch [where s = loan_paused and e = "call_env lenderX 10 3000" and i = 1]
  have 2: "fundLoan (call_env lenderX 10 3000) 1 loan_paused = Inl EnforcedPause"
    by blast
  from p pause_switch [where s = loan_paused and e = "call_env borrowerA 12 3000" and i = 1]
  have 3: "repay (call_env borrowerA 12 3000) 1 loan_paused = Inl EnforcedPause"
    by blast
  from p pause_switch [where s = loan_paused and e = "call_env lenderX 0 700000" and i = 1]
  have 4: "claimCollateral (call_env lenderX 0 700000) 1 loan_paused = Inl EnforcedPause"
    by blast
  from pause_switch [where s = loan_paused and i = 1]
  have 5: "getLoan 1 loan_paused = Inr (loans loan_funded 1)"
    by (simp add: loan_paused_state loan_funded_state word_le_nat_alt)
  from who pause_switch [where s = loan_funded and e = "call_env borrowerA 0 3000"]
  have 6: "pause (call_env borrowerA 0 3000) loan_funded = Inl (OwnableUnauthorizedAccount borrowerA)"
    by (simp add: call_env_def)
  from who pause_switch [where s = loan_paused and e = "call_env borrowerA 0 3000"]
  have 7: "unpause (call_env borrowerA 0 3000) loan_paused = Inl (OwnableUnauthorizedAccount borrowerA)"
    by (simp add: call_env_def)
  from who pause_switch [where s = loan_funded and e = "call_env admin 0 3000"]
  have 8: "paused (commit (pause (call_env admin 0 3000) loan_funded) loan_funded)"
    by blast
  from who pause_switch [where s = loan_paused and e = "call_env admin 0 3000"]
  have 9: "\<not> paused (commit (unpause (call_env admin 0 3000) loan_paused) loan_paused)"
    by blast
  from p 1 2 3 4 5 6 7 8 9 show ?thesis by simp
qed

subsection \<open>No deadline in \<open>repay\<close>\<close>

text \<open>
  Claim C9, as stated: for every funded, active loan a borrower's \<open>repay\<close> succeeds even
  after the maturity \<open>startTime + duration\<close>. This fails, after maturity and for a call
  by the borrower of a funded and active loan: on the paused ledger; for the loan created
  with a cap of \<open>2^255\<close> percent, where the checked product \<open>principal * cap\<close> panics
  for every payment; for a payment that makes \<open>totalRepaid + msg.value\<close> exceed 256 bits;
  for a payment of zero; and when the lender, or on closure the borrower, does not accept
  the transfer.
\<close>

theorem repay_after_maturity_counterexample:
  "funded (loans loan_paused 1) \<and> active (loans loan_paused 1) \<and>
   borrower (loans loan_paused 1) = borrowerA \<and>
   unat (startTime (loans loan_paused 1)) + unat (duration (loans loan_paused 1)) < 900000 \<and>
   repay (call_env borrowerA 12 900000) 1 loan_paused = Inl EnforcedPause \<and>
   funded (loans loan_bigcap 1) \<and> active (loans loan_bigcap 1) \<and>
   borrower (loans loan_bigcap 1) = borrowerA \<and>
   unat (startTime (loans loan_bigcap 1)) + unat (duration (loans loan_bigcap 1)) < 900000 \<and>
   repay (call_env borrowerA 12 900000) 1 loan_bigcap = Inl PanicOverflow \<and>
   funded (loans loan_part_repaid 1) \<and> active (loans loan_part_repaid 1) \<and>
   borrower (loans loan_part_repaid 1) = borrowerA \<and>
   repay (call_env borrowerA uint256_max 900000) 1 loan_part_repaid = Inl PanicOverflow \<and>
   funded (loans loan_funded 1) \<and> active (loans loan_funded 1) \<and>
   borrower (loans loan_funded 1) = borrowerA \<and>
   repay (call_env borrowerA 0 900000) 1 loan_funded = Inl RepaymentMustBePositive \<and>
   repay ((call_env borrowerA 12 900000)\<lparr>accepts := only_to borrowerA\<rparr>) 1 loan_funded
     = Inl TransferFailed \<and>
   repay ((call_env borrowerA 12 900000)\<lparr>accepts := only_to lenderX\<rparr>) 1 loan_funded
     = Inl TransferFailed"
  by (simp add: repay_def mods checked_add_def checked_mul_def exec_def Let_def
      loan_paused_state loan_bigcap_state loan_part_repaid_state loan_funded_state
      call_env_def only_to_def borrowerA_def lenderX_def uint256_max_def
      word_le_nat_alt word_less_nat_alt)

text \<open>
  Claim C9, amended. \<open>repay\<close> does not read the time. For a funded and active loan whose
  maturity \<open>startTime + duration\<close> has passed, a call of \<open>repay\<close> by the borrower with a
  positive payment returns, with the same result as at any other time \<open>t\<close>, whenever the
  ledger is not paused, \<open>principal * repaymentCapPercent\<close> and
  \<open>totalRepaid + msg.value\<close> fit in 256 bits, the lender accepts the payment and, when the
  call closes a loan with collateral, the borrower accepts the collateral; when the payment
  reaches the required repayment the loan is closed, its collateral is zeroed and, if
  positive, transferred to the borrower, and a later \<open>claimCollateral\<close> by the lender
  reverts with \<open>LoanNotActive\<close>.
\<close>

theorem repay_has_no_deadline:
  assumes "\<not> paused s" and "i \<noteq> 0" and "i < nextLoanId s"
    and "funded (loans s i)" and "active (loans s i)"
    and "msg_sender e = borrower (loans s i)" and "0 < unat (msg_value e)"
    and "unat (principal (loans s i)) * unat (repaymentCapPercent (loans s i)) < 2 ^ 256"
    and "unat (totalRepaid (loans s i)) + unat (msg_value e) < 2 ^ 256"
    and "accepts e (lender (loans s i)) (msg_value e)"
    and "requiredRepayment (loans s i) \<le> unat (totalRepaid (loans s i)) + unat (msg_value e)
         \<and> collateralAmount (loans s i) \<noteq> 0
       \<longrightarrow> accepts e (borrower (loans s i)) (collateralAmount (loans s i))"
    and "unat (startTime (loans s i)) + unat (duration (loans s i)) < unat (block_timestamp e)"
  shows "\<exists>s' fx. repay e i s = Inr (s', fx) \<and>
           repay (e\<lparr>block_timestamp := t\<rparr>) i s = Inr (s', fx) \<and>
           unat (totalRepaid (loans s' i)) = unat (totalRepaid (loans s i)) + unat (msg_value e) \<and>
           (requiredRepayment (loans s i) \<le> unat (totalRepaid (loans s i)) + unat (msg_value e)
              \<longrightarrow> \<not> active (loans s' i) \<and> collateralAmount (loans s' i) = 0 \<and>
                  (collateralAmount (loans s i) \<noteq> 0 \<longrightarrow>
                     (borrower (loans s i), collateralAmount (loans s i)) \<in> set (transfers fx)) \<and>
                  (\<forall>e'. msg_sender e' = lender (loans s' i)
                     \<longrightarrow> claimCollateral e' i s' = Inl LoanNotActive))"
proof -
  from assms have "\<exists>m. repay e i s = Inr m"
    by (auto simp: repay_Inr unat_gt_0)
  then obtain m where ok: "repay e i s = Inr m"
    by blast
  obtain s' fx where m: "m = (s', fx)" by (cases m)
  from ok have same: "repay (e\<lparr>block_timestamp := t\<rparr>) i s = Inr m"
    by (simp add: repay_ignores_time)
  have sum: "unat (totalRepaid (loans s i) + msg_value e)
      = unat (totalRepaid (loans s i)) + unat (msg_value e)"
    using assms by (simp add: unat_checked_sum)
  from ok m have tot: "unat (totalRepaid (loans s' i))
      = unat (totalRepaid (loans s i)) + unat (msg_value e)"
    by (auto simp: repay_Inr sum split: if_splits)
  have closed: "\<not> active (loans s' i) \<and> collateralAmount (loans s' i) = 0 \<and>
      (collateralAmount (loans s i) \<noteq> 0 \<longrightarrow>
         (borrower (loans s i), collateralAmount (loans s i)) \<in> set (transfers fx)) \<and>
      (\<forall>e'. msg_sender e' = lender (loans s' i)
         \<longrightarrow> claimCollateral e' i s' = Inl LoanNotActive)"
    if "requiredRepayment (loans s i) \<le> unat (totalRepaid (loans s i)) + unat (msg_value e)"
    using ok m that assms(1-5)
    by (auto simp: repay_Inr claimCollateral_def mods not_le split: if_splits)
  from ok same m tot closed show ?thesis by blast
qed

text \<open>
  The borrower of the scenario repays 12 at time 900000, after the maturity 605800; the
  lender's claim one second later is rejected.
\<close>

theorem repay_has_no_deadline_witness:
  "unat (startTime (loans loan_funded 1)) + unat (duration (loans loan_funded 1))
     < unat (block_timestamp (call_env borrowerA 12 900000)) \<and>
   isl (repay (call_env borrowerA 12 900000) 1 loan_funded) = False \<and>
   active (loans (commit (repay (call_env borrowerA 12 900000) 1 loan_funded) loan_funded) 1) = False \<and>
   collateralAmount (loans (commit (repay (call_env borrowerA 12 900000) 1 loan_funded) loan_funded) 1) = 0 \<and>
   map_sum id (transfers \<circ> snd) (repay (call_env borrowerA 12 900000) 1 loan_funded) =
     Inr [(lenderX, 12), (borrowerA, 2)] \<and>
   claimCollateral (call_env lenderX 0 900001) 1
     (commit (repay (call_env borrowerA 12 900000) 1 loan_funded) loan_funded) = Inl LoanNotActive"
proof -
  let ?e = "call_env borrowerA 12 900000"
  have late: "unat (startTime (loans loan_funded 1)) + unat (duration (loans loan_funded 1))
     < unat (block_timestamp ?e)"
    by (simp add: loan_funded_state call_env_def)
  have req: "requiredRepayment (loans loan_funded 1)
      \<le> unat (totalRepaid (loans loan_funded 1)) + unat (msg_value ?e)"
    by (simp add: requiredRepayment_def loan_funded_state call_env_def)
  have pre: "\<not> paused loan_funded" "(1::uint256) \<noteq> 0" "1 < nextLoanId loan_funded"
    "funded (loans loan_funded 1)" "active (loans loan_funded 1)"
    "msg_sender ?e = borrower (loans loan_funded 1)" "0 < unat (msg_value ?e)"
    "unat (principal (loans loan_funded 1)) * unat (repaymentCapPercent (loans loan_funded 1))
       < 2 ^ 256"
    "unat (totalRepaid (loans loan_funded 1)) + unat (msg_value ?e) < 2 ^ 256"
    "accepts ?e (lender (loans loan_funded 1)) (msg_value ?e)"
    "requiredRepayment (loans loan_funded 1)
         \<le> unat (totalRepaid (loans loan_funded 1)) + unat (msg_value ?e)
         \<and> collateralAmount (loans loan_funded 1) \<noteq> 0
       \<longrightarrow> accepts ?e (borrower (loans loan_funded 1)) (collateralAmount (loans loan_funded 1))"
    by (simp_all add: loan_funded_state call_env_def always_def borrowerA_def word_less_nat_alt)
  have coll: "collateralAmount (loans loan_funded 1) \<noteq> 0"
    by (simp add: loan_funded_state)
  from repay_has_no_deadline [OF pre late, where t = 900000] req coll
  have "\<exists>s' fx. repay ?e 1 loan_funded = Inr (s', fx) \<and>
      \<not> active (loans s' 1) \<and> collateralAmount (loans s' 1) = 0 \<and>
      (\<forall>e'. msg_sender e' = lender (loans s' 1) \<longrightarrow> claimCollateral e' 1 s' = Inl LoanNotActive)"
    by blast
  then obtain s' fx where run: "repay ?e 1 loan_funded = Inr (s', fx)"
    and closed: "\<not> active (loans s' 1)" "collateralAmount (loans s' 1) = 0"
    and claim: "\<forall>e'. msg_sender e' = lender (loans s' 1) \<longrightarrow> claimCollateral e' 1 s' = Inl LoanNotActive"
    by blast
  from run have fx: "transfers fx = [(lenderX, 12), (borrowerA, 2)]"
    and lender: "lender (loans s' 1) = lenderX"
    by (auto simp: repay_Inr loan_funded_state call_env_def borrowerA_def lenderX_def
        requiredRepayment_def split: if_splits)
  from claim lender have "claimCollateral (call_env lenderX 0 900001) 1 s' = Inl LoanNotActive"
    by (simp add: call_env_def)
  with late run closed fx show ?thesis
    by (simp add: commit_def)
qed

subsection \<open>The ways out for the collateral\<close>

text \<open>
  Claim C10. The transfers of a transaction that returns are: none for \<open>createLoan\<close>
  (which takes the collateral in), \<open>pause\<close> and \<open>unpause\<close>; for \<open>fundLoan\<close> the value
  sent with the call, forwarded to the borrower; for \<open>repay\<close> the value sent with the
  call, forwarded to the lender, followed, when the call closes the loan and the loan has
  collateral, by the collateral to the borrower; for \<open>claimCollateral\<close> the collateral
  to the lender. So value beyond what the call itself brought leaves only as the collateral
  of a loan, in a closing \<open>repay\<close> or in \<open>claimCollateral\<close>. For a loan \<open>i\<close> of the
  ledger, a transaction changes \<open>collateralAmount\<close> only by zeroing it, in a \<open>repay\<close>
  or \<open>claimCollateral\<close> on loan \<open>i\<close> which was funded and active and is closed by the
  call. On a loan that is not funded \<open>repay\<close> and \<open>claimCollateral\<close> always revert, and
  as long as the loan is not funded (a funded loan stays funded, so: if it is not funded
  after the transactions \<open>ts\<close>), its \<open>collateralAmount\<close> is what it was: there is no
  function that gives it back.
\<close>

theorem collateral_leaves_by_closure_or_default:
  assumes "i \<noteq> 0" and "i < nextLoanId s"
  shows "(perform t s = Inr (s', fx) \<longrightarrow>
            transfers fx =
              (case t of
                 CreateLoan e a r c d \<Rightarrow> []
               | FundLoan e j \<Rightarrow> [(borrower (loans s j), msg_value e)]
               | Repay e j \<Rightarrow>
                   (lender (loans s j), msg_value e) #
                   (if active (loans s' j) \<or> collateralAmount (loans s j) = 0 then []
                    else [(borrower (loans s j), collateralAmount (loans s j))])
               | ClaimCollateral e j \<Rightarrow> [(lender (loans s j), collateralAmount (loans s j))]
               | Pause e \<Rightarrow> []
               | Unpause e \<Rightarrow> [])) \<and>
         (collateralAmount (loans (commit (perform t s) s) i) \<noteq> collateralAmount (loans s i)
            \<longrightarrow> funded (loans s i) \<and> active (loans s i) \<and>
                \<not> active (loans (commit (perform t s) s) i) \<and>
                collateralAmount (loans (commit (perform t s) s) i) = 0 \<and>
                (\<exists>e. t = Repay e i \<or> t = ClaimCollateral e i)) \<and>
         (\<not> funded (loans s i) \<longrightarrow> isl (repay e i s) \<and> isl (claimCollateral e i s)) \<and>
         (\<not> funded (loans (run ts s) i)
            \<longrightarrow> collateralAmount (loans (run ts s) i) = collateralAmount (loans s i))"
  using perform_transfers [of t s s' fx] step_collateral [OF assms(2), of t]
    unfunded_loan_is_stuck [of s i e] run_unfunded_collateral [OF assms(2), of ts]
  by blast

text \<open>
  The unfunded loan of the scenario keeps its collateral of 2 through a repayment, two
  claims and the creation of another loan; on the funded loan the closing repayment
  transfers the payment to the lender and the collateral to the borrower.
\<close>

theorem collateral_leaves_by_closure_or_default_witness:
  "(1::uint256) \<noteq> 0 \<and> 1 < nextLoanId loan_created \<and> funded (loans loan_created 1) = False \<and>
   funded (loans (run [Repay (call_env borrowerA 12 5000) 1,
                       ClaimCollateral (call_env lenderX 0 700000) 1,
                       CreateLoan (call_env borrowerA 0 800000) 5 10 100 60,
                       ClaimCollateral (call_env borrowerA 0 900000) 1] loan_created) 1) = False \<and>
   collateralAmount (loans (run [Repay (call_env borrowerA 12 5000) 1,
                       ClaimCollateral (call_env lenderX 0 700000) 1,
                       CreateLoan (call_env borrowerA 0 800000) 5 10 100 60,
                       ClaimCollateral (call_env borrowerA 0 900000) 1] loan_created) 1) = 2 \<and>
   isl (repay (call_env borrowerA 12 5000) 1 loan_created) \<and>
   isl (claimCollateral (call_env borrowerA 0 900000) 1 loan_created) \<and>
   collateralAmount (loans (commit (perform (Repay (call_env borrowerA 12 5000) 1) loan_funded)
     loan_funded) 1) \<noteq> collateralAmount (loans loan_funded 1) \<and>
   map_sum id (transfers \<circ> snd) (perform (Repay (call_env borrowerA 12 5000) 1) loan_funded) =
     Inr [(lenderX, 12), (borrowerA, 2)]"
proof -
  let ?ts = "[Repay (call_env borrowerA 12 5000) 1,
              ClaimCollateral (call_env lenderX 0 700000) 1,
              CreateLoan (call_env borrowerA 0 800000) 5 10 100 60,
              ClaimCollateral (call_env borrowerA 0 900000) 1]"
  have pre: "(1::uint256) \<noteq> 0" "1 < nextLoanId loan_created"
    by (simp_all add: loan_created_state word_less_nat_alt)
  have unfunded: "\<not> funded (loans loan_created 1)"
    by (simp add: loan_created_state)
  have still: "\<not> funded (loans (run ?ts loan_created) 1)"
    by (simp add: unfold_calls loan_created_state call_env_def borrowerA_def lenderX_def)
  from collateral_leaves_by_closure_or_default [OF pre, where ts = ?ts] still
  have kept: "collateralAmount (loans (run ?ts loan_created) 1) = 2"
    by (simp add: loan_created_state)
  from collateral_leaves_by_closure_or_default [OF pre, where e = "call_env borrowerA 12 5000"]
    unfunded
  have stuck1: "isl (repay (call_env borrowerA 12 5000) 1 loan_created)"
    by blast
  from collateral_leaves_by_closure_or_default [OF pre, where e = "call_env borrowerA 0 900000"]
    unfunded
  have stuck2: "isl (claimCollateral (call_env borrowerA 0 900000) 1 loan_created)"
    by blast
  have pre': "(1::uint256) \<noteq> 0" "1 < nextLoanId loan_funded"
    by (simp_all add: loan_funded_state word_less_nat_alt)
  have "\<exists>m. repay (call_env borrowerA 12 5000) 1 loan_funded = Inr m"
    by (simp add: repay_Inr loan_funded_state call_env_def always_def borrowerA_def
        requiredRepayment_def word_less_nat_alt)
  then obtain s' fx where run: "perform (Repay (call_env borrowerA 12 5000) 1) loan_funded
      = Inr (s', fx)"
    by auto
  then have s': "s' = loan_repaid"
    by (simp add: loan_repaid_def commit_def)
  from collateral_leaves_by_closure_or_default [OF pre', where s' = s' and fx = fx
      and t = "Repay (call_env borrowerA 12 5000) 1"] run
  have out: "transfers fx = [(lenderX, 12), (borrowerA, 2)]"
    by (simp add: s' loan_repaid_state loan_funded_state call_env_def borrowerA_def lenderX_def)
  from run s' have changed: "collateralAmount (loans (commit (perform (Repay
      (call_env borrowerA 12 5000) 1) loan_funded) loan_funded) 1)
        \<noteq> collateralAmount (loans loan_funded 1)"
    by (simp add: commit_def loan_repaid_state loan_funded_state)
  from pre unfunded still kept stuck1 stuck2 changed run out show ?thesis
    by simp
qed

end
